theory Spec2Isabelle
  imports Complex_Main
begin

section \<open>Extension lists\<close>

text \<open>
  \<^verbatim>\<open>interface ExtensionId { id: string; uuid: string }\<close> and
  \<^verbatim>\<open>interface ExtensionList { builtin?; disabled; enabled; uninstall? }\<close> of
  \<^verbatim>\<open>repository.ts\<close>. The field \<^verbatim>\<open>id\<close> is written \<open>id_ext\<close>, since \<open>id\<close> is the
  identity function of HOL. An optional field is an \<open>option\<close>; of \<^verbatim>\<open>builtin\<close> only the
  \<^verbatim>\<open>disabled\<close> list is kept, the only one the repository ever fills.
\<close>

record ExtensionId =
  id_ext :: string
  uuid :: string

record ExtensionList =
  builtin :: "string list option"
  disabled :: "ExtensionId list"
  enabled :: "ExtensionId list"
  uninstall :: "ExtensionId list option"

definition NIL_UUID :: string where
  "NIL_UUID = ''00000000-0000-0000-0000-000000000000''"

text \<open>
  \<^verbatim>\<open>Array.prototype.findIndex\<close>: the index of the first element satisfying the
  predicate; JavaScript's \<^verbatim>\<open>-1\<close> is \<open>None\<close>.
\<close>

fun findIndex :: "('a \<Rightarrow> bool) \<Rightarrow> 'a list \<Rightarrow> nat option" where
  "findIndex p [] = None"
| "findIndex p (x # xs) =
     (if p x then Some 0
      else (case findIndex p xs of None \<Rightarrow> None | Some k \<Rightarrow> Some (Suc k)))"

text \<open>\<^verbatim>\<open>xs.splice(index, 1)\<close>: the list without the element at \<open>index\<close>.\<close>

definition splice1 :: "nat \<Rightarrow> 'a list \<Rightarrow> 'a list" where
  "splice1 k xs = take k xs @ drop (Suc k) xs"

text \<open>
  The idiom that \<^verbatim>\<open>applyExtensionsDiff\<close> uses four times:
  \<^verbatim>\<open>const index = xs.findIndex((item) => item.id === id); if(index !== -1) xs.splice(index, 1)\<close>.
\<close>

definition removeById :: "string \<Rightarrow> ExtensionId list \<Rightarrow> ExtensionId list" where
  "removeById i xs =
     (case findIndex (\<lambda>item. id_ext item = i) xs of
        None \<Rightarrow> xs
      | Some k \<Rightarrow> splice1 k xs)"

text \<open>\<^verbatim>\<open>xs.some((item) => item.id === id)\<close>.\<close>

definition someId :: "string \<Rightarrow> ExtensionId list \<Rightarrow> bool" where
  "someId i xs = list_ex (\<lambda>item. id_ext item = i) xs"

text \<open>
  The three loops of \<^verbatim>\<open>applyExtensionsDiff\<close>, one step each, on the pair
  \<open>(disabled, enabled)\<close> of the two arrays that the method mutates in place.
\<close>

definition disableStep ::
  "ExtensionId list \<times> ExtensionId list \<Rightarrow> ExtensionId \<Rightarrow> ExtensionId list \<times> ExtensionId list" where
  "disableStep s ext =
     (let en = removeById (id_ext ext) (snd s);
          dis = (if \<not> someId (id_ext ext) (fst s) then fst s @ [ext] else fst s)
      in (dis, en))"

definition enableStep ::
  "ExtensionId list \<times> ExtensionId list \<Rightarrow> ExtensionId \<Rightarrow> ExtensionId list \<times> ExtensionId list" where
  "enableStep s ext =
     (let dis = removeById (id_ext ext) (fst s);
          en = (if \<not> someId (id_ext ext) (snd s) then snd s @ [ext] else snd s)
      in (dis, en))"

definition uninstallStep ::
  "ExtensionId list \<times> ExtensionId list \<Rightarrow> ExtensionId \<Rightarrow> ExtensionId list \<times> ExtensionId list" where
  "uninstallStep s ext =
     (case findIndex (\<lambda>item. id_ext item = id_ext ext) (fst s) of
        Some k \<Rightarrow> (splice1 k (fst s), snd s)
      | None \<Rightarrow> (fst s, removeById (id_ext ext) (snd s)))"

text \<open>
  \<^verbatim>\<open>applyExtensionsDiff({ disabled, enabled }, diff)\<close>. \<^verbatim>\<open>if(diff.uninstall)\<close> tests that
  the field is present (an empty array is truthy). The result is the object literal
  \<^verbatim>\<open>{ disabled, enabled }\<close>: it has no \<^verbatim>\<open>uninstall\<close> and no \<^verbatim>\<open>builtin\<close>.
\<close>

definition applyExtensionsDiff :: "ExtensionList \<Rightarrow> ExtensionList \<Rightarrow> ExtensionList" where
  "applyExtensionsDiff base diff =
     (let s1 = foldl disableStep (disabled base, enabled base) (disabled diff);
          s2 = foldl enableStep s1 (enabled diff);
          s3 = (case uninstall diff of
                  None \<Rightarrow> s2
                | Some us \<Rightarrow> foldl uninstallStep s2 us)
      in \<lparr>builtin = None, disabled = fst s3, enabled = snd s3, uninstall = None\<rparr>)"

text \<open>
  Modelled from the spec: \<^verbatim>\<open>arrayDiff\<close> of \<^verbatim>\<open>utils/array-diff\<close>, which is not among the
  sources. The specification calls it the asymmetric set difference: the elements of
  the first array that are not in the second, in the order of the first.
\<close>

definition arrayDiff :: "string list \<Rightarrow> string list \<Rightarrow> string list" where
  "arrayDiff a b = filter (\<lambda>x. x \<notin> set b) a"

text \<open>
  The table \<^verbatim>\<open>ids\<close> of \<^verbatim>\<open>serializeExtensions\<close>:
  \<^verbatim>\<open>for(const ext of [...]) ids[ext.id] = ext\<close>, a later entry replacing an earlier one.
\<close>

definition idsTable :: "ExtensionId list \<Rightarrow> (string \<rightharpoonup> ExtensionId)" where
  "idsTable exts = foldl (\<lambda>m ext. m(id_ext ext \<mapsto> ext)) Map.empty exts"

text \<open>
  The diff that \<^verbatim>\<open>serializeExtensions\<close> computes for an inheriting profile, from the
  live list \<open>editor\<close> and the effective list \<open>profile\<close> of the parent. Every name that
  \<^verbatim>\<open>arrayDiff\<close> returns is a key of \<^verbatim>\<open>ids\<close> (lemma \<open>idsTable_defined\<close> below), so
  \<^verbatim>\<open>ids[id]\<close> is never \<^verbatim>\<open>undefined\<close>. The document is written without \<^verbatim>\<open>uninstall\<close>
  when that list is empty.
\<close>

definition extensionsDiff :: "ExtensionList \<Rightarrow> ExtensionList \<Rightarrow> ExtensionList" where
  "extensionsDiff editor profile =
     (let ids = idsTable (disabled profile @ enabled profile @ disabled editor @ enabled editor);
          dis = map (\<lambda>i. the (ids i))
                  (arrayDiff (map id_ext (disabled editor)) (map id_ext (disabled profile)));
          en = map (\<lambda>i. the (ids i))
                  (arrayDiff (map id_ext (enabled editor)) (map id_ext (enabled profile)));
          un = map (\<lambda>i. the (ids i))
                  (arrayDiff (map id_ext (disabled profile @ enabled profile))
                             (map id_ext (disabled editor @ enabled editor)))
      in \<lparr>builtin = None, disabled = dis, enabled = en,
          uninstall = (if length un > 0 then Some un else None)\<rparr>)"

text \<open>
  The invariant of a stored or live list: no identifier twice in a list, and none in
  both lists.
\<close>

definition idsOf :: "ExtensionId list \<Rightarrow> string set" where
  "idsOf xs = set (map id_ext xs)"

definition wellFormed :: "ExtensionId list \<Rightarrow> ExtensionId list \<Rightarrow> bool" where
  "wellFormed dis en \<longleftrightarrow>
     distinct (map id_ext dis) \<and> distinct (map id_ext en) \<and> idsOf dis \<inter> idsOf en = {}"

text \<open>
  Three notions used to state what \<^verbatim>\<open>applyExtensionsDiff\<close> computes on well-formed
  lists: \<^verbatim>\<open>push\<close> unless the identifier is present, the entries whose identifier is
  outside a set, and the identifiers that a diff uninstalls.
\<close>

definition pushNew :: "ExtensionId list \<Rightarrow> ExtensionId \<Rightarrow> ExtensionId list" where
  "pushNew acc x = (if \<not> someId (id_ext x) acc then acc @ [x] else acc)"

definition keepOut :: "string set \<Rightarrow> ExtensionId list \<Rightarrow> ExtensionId list" where
  "keepOut S xs = filter (\<lambda>x. id_ext x \<notin> S) xs"

definition uninstallIds :: "ExtensionList \<Rightarrow> string set" where
  "uninstallIds diff = (case uninstall diff of None \<Rightarrow> {} | Some us \<Rightarrow> idsOf us)"

section \<open>Errors, values and documents\<close>

text \<open>
  An exception of the source is a value. \<open>NotInitialized\<close> is the error of
  \<^verbatim>\<open>checkInitialized\<close>, \<open>SyncSettingsNotFound\<close> the error
  \<^verbatim>\<open>'sync settings file of profile can not be found'\<close>, \<open>TypeError\<close> what JavaScript
  raises on iterating or spreading \<^verbatim>\<open>undefined\<close> and on reading a property of
  \<^verbatim>\<open>null\<close>, \<open>ENOENT\<close> what copying a file raises when the source or the directory
  of the target does not exist.
\<close>

datatype error = NotInitialized | SyncSettingsNotFound | TypeError | ENOENT

datatype Resource = Settings | Keybindings | Snippets | Extensions | UIState

text \<open>The values of \<^verbatim>\<open>process.platform\<close> that \<^verbatim>\<open>getProfileKeybindingsPath\<close> tells apart.\<close>

datatype platform = Darwin | Linux | Win32 | OtherPlatform

text \<open>\<^verbatim>\<open>interface ProfileSettings { extends?: string }\<close>, the content of \<^verbatim>\<open>profile.yml\<close>.\<close>

record ProfileSettings =
  extends :: "string option"

text \<open>
  \<^verbatim>\<open>interface ProfileSyncSettings\<close>, the content of \<^verbatim>\<open>.sync.yml\<close> and of the older
  \<^verbatim>\<open>config.yml\<close>: four optional fields.
\<close>

record ProfileSyncSettings =
  keybindingsPerPlatform :: "bool option"
  ignoredExtensions :: "string list option"
  ignoredSettings :: "string list option"
  resources :: "Resource list option"

text \<open>
  A JavaScript object used as a table (\<^verbatim>\<open>Record<string, T>\<close>) is an association list
  in insertion order: \<open>map_of\<close> reads a property, \<open>objSet\<close> is the assignment
  \<^verbatim>\<open>o[key] = value\<close> (in place when the key exists, at the end otherwise), \<open>objDelete\<close>
  is \<^verbatim>\<open>delete o[key]\<close>, \<open>objKeys\<close> is \<^verbatim>\<open>Object.keys\<close>. (The keys of these tables
  are extension identifiers, file names and keys of the state database; a key that is
  a decimal array index, which JavaScript enumerates before the others, or the name
  of a property of \<^verbatim>\<open>Object.prototype\<close> is outside this model.)
\<close>

type_synonym 'a obj = "(string \<times> 'a) list"

fun objSet :: "string \<Rightarrow> 'a \<Rightarrow> 'a obj \<Rightarrow> 'a obj" where
  "objSet k v [] = [(k, v)]"
| "objSet k v (p # ps) = (if fst p = k then (k, v) # ps else p # objSet k v ps)"

fun objDelete :: "string \<Rightarrow> 'a obj \<Rightarrow> 'a obj" where
  "objDelete k [] = []"
| "objDelete k (p # ps) = (if fst p = k then objDelete k ps else p # objDelete k ps)"

definition objKeys :: "'a obj \<Rightarrow> string list" where
  "objKeys ob = map fst ob"

text \<open>
  A JavaScript number: a finite number (the two zeros are one number for every
  comparison made here), or an infinity with its sign. \<^verbatim>\<open>NaN\<close> is kept apart.
\<close>

datatype number = Finite real | Infinity bool

text \<open>
  The value of a row of the state database, as the SQLite driver returns it:
  \<^verbatim>\<open>null\<close>, a number (SQLite stores no \<^verbatim>\<open>NaN\<close>), a string, or binary data in a
  \<^verbatim>\<open>Uint8Array\<close>.
\<close>

datatype sqlvalue = SqlNull | SqlNumber number | SqlString string | SqlBlob "nat list"

text \<open>
  A value of a parsed YAML document, as \<^verbatim>\<open>yaml.parse\<close> returns it: \<^verbatim>\<open>null\<close>, a
  boolean, a number or \<^verbatim>\<open>NaN\<close>, a string, an array, or a plain object. It is never a
  \<^verbatim>\<open>Uint8Array\<close>: binary data that \<^verbatim>\<open>yaml.stringify\<close> wrote comes back as an
  array.
\<close>

datatype yamlvalue =
    YNull | YBool bool | YNumber number | YNaN | YString string
  | YSeq "yamlvalue list" | YMap "(string \<times> yamlvalue) list"

text \<open>
  \<^verbatim>\<open>a === b\<close> for a value \<open>a\<close> of the state database and a value \<open>b\<close> of a parsed
  document: \<^verbatim>\<open>null\<close>, numbers and strings are compared by value, and two objects from
  two sources are never the same object. \<open>strictNeq\<close> is \<^verbatim>\<open>value !== o[key]\<close>, where
  a missing property is \<^verbatim>\<open>undefined\<close> and differs from every value of the database.
\<close>

fun strictEq :: "sqlvalue \<Rightarrow> yamlvalue \<Rightarrow> bool" where
  "strictEq SqlNull YNull = True"
| "strictEq (SqlNumber a) (YNumber b) = (a = b)"
| "strictEq (SqlString a) (YString b) = (a = b)"
| "strictEq _ _ = False"

fun strictNeq :: "sqlvalue \<Rightarrow> yamlvalue option \<Rightarrow> bool" where
  "strictNeq v None = True"
| "strictNeq v (Some u) = (\<not> strictEq v u)"

text \<open>
  Deep value equality on the same two kinds of values: both are the same kind of
  value and have the same content. It holds when \<^verbatim>\<open>a === b\<close>. Binary data in a
  \<^verbatim>\<open>Uint8Array\<close> is neither an array nor a plain object, the two kinds of object
  that a document has, so it is deep-equal to no value of a document (\<^verbatim>\<open>deepEqual\<close>
  of \<^verbatim>\<open>fast-equals\<close>, which the code applies to the sync settings, holds a
  \<^verbatim>\<open>Uint8Array\<close> unequal to an array). \<open>deepNeq\<close> is the negation, against a
  property that may be missing.
\<close>

fun deepEq :: "sqlvalue \<Rightarrow> yamlvalue \<Rightarrow> bool" where
  "deepEq (SqlBlob bs) (YSeq xs) = False"
| "deepEq (SqlBlob bs) (YMap m) = False"
| "deepEq v u = strictEq v u"

fun deepNeq :: "sqlvalue \<Rightarrow> yamlvalue option \<Rightarrow> bool" where
  "deepNeq v None = True"
| "deepNeq v (Some u) = (\<not> deepEq v u)"

text \<open>
  \<^verbatim>\<open>interface UIStateDiff\<close>: the diff that \<^verbatim>\<open>serializeUIState\<close> computes holds values
  of the database, the parsed content of \<^verbatim>\<open>ui-state.diff.yml\<close> holds values of a
  document.
\<close>

record 'v UIStateDiff =
  modified :: "'v obj"
  removed :: "string list"

text \<open>
  The stored extension document, \<^verbatim>\<open>extensions.yml\<close>. Its lists are arrays of names in
  a document of the old shape and arrays of \<^verbatim>\<open>{ id, uuid }\<close> records otherwise;
  \<^verbatim>\<open>uninstall\<close> is optional. (A document that mixes names and records is outside this
  model.)
\<close>

datatype RawExtensions =
    LegacyDoc "string list" "string list" "string list option"
  | StructuredDoc "ExtensionId list" "ExtensionId list" "ExtensionId list option"

text \<open>
  Truthiness of an optional string: \<^verbatim>\<open>undefined\<close> and the empty string are falsy.
  \<open>truthy\<close> keeps the value when it is truthy.
\<close>

definition truthy :: "string option \<Rightarrow> string option" where
  "truthy v = (case v of None \<Rightarrow> None | Some s \<Rightarrow> if s = [] then None else Some s)"

text \<open>
  \<^verbatim>\<open>s.includes(sub)\<close> on strings.
\<close>

fun includesStr :: "string \<Rightarrow> string \<Rightarrow> bool" where
  "includesStr [] sub = (sub = [])"
| "includesStr (c # cs) sub = (take (length sub) (c # cs) = sub \<or> includesStr cs sub)"

text \<open>
  \<^verbatim>\<open>s.replaceAll(pat, rep)\<close> with a string pattern. In the replacement text \<^verbatim>\<open>$$\<close>
  stands for a dollar sign, \<^verbatim>\<open>$&\<close> for the matched text, \<^verbatim>\<open>$`\<close> for the part of the
  string before the match and \<^verbatim>\<open>$'\<close> for the part after it; \<open>substitution\<close> is
  the text that replaces one match. \<open>replaceFrom\<close> scans the string from the left:
  its counter is the number of characters of a match still to skip, and \<open>before\<close>
  is the part of the string already passed. An empty pattern matches before every
  character and at the end.
\<close>

fun substitution :: "string \<Rightarrow> string \<Rightarrow> string \<Rightarrow> string \<Rightarrow> string" where
  "substitution [] matched before after = []"
| "substitution [c] matched before after = [c]"
| "substitution (c # d # cs) matched before after =
     (if c = CHR ''$'' \<and> d = CHR ''$'' then CHR ''$'' # substitution cs matched before after
      else if c = CHR ''$'' \<and> d = CHR ''&'' then matched @ substitution cs matched before after
      else if c = CHR ''$'' \<and> d = CHR 0x60 then before @ substitution cs matched before after
      else if c = CHR ''$'' \<and> d = CHR 0x27 then after @ substitution cs matched before after
      else c # substitution (d # cs) matched before after)"

fun replaceFrom :: "string \<Rightarrow> string \<Rightarrow> nat \<Rightarrow> string \<Rightarrow> string \<Rightarrow> string" where
  "replaceFrom pat rep k before [] = (if pat = [] then substitution rep pat before [] else [])"
| "replaceFrom pat rep (Suc k) before (c # cs) = replaceFrom pat rep k (before @ [c]) cs"
| "replaceFrom pat rep 0 before (c # cs) =
     (if take (length pat) (c # cs) = pat
      then substitution rep pat before (drop (length pat) (c # cs)) @
           (if pat = [] then c # replaceFrom pat rep 0 (before @ [c]) cs
            else replaceFrom pat rep (length pat - 1) (before @ [c]) cs)
      else c # replaceFrom pat rep 0 (before @ [c]) cs)"

definition replaceAll :: "string \<Rightarrow> string \<Rightarrow> string \<Rightarrow> string" where
  "replaceAll pat rep s = replaceFrom pat rep 0 [] s"

definition startsWith :: "string \<Rightarrow> string \<Rightarrow> bool" where
  "startsWith s pre = (take (length pre) s = pre)"

section \<open>The repository, the editor and the host\<close>

text \<open>
  One entry of \<^verbatim>\<open>vscode.extensions.all\<close> with the fields of its \<^verbatim>\<open>packageJSON\<close> that
  \<^verbatim>\<open>listEditorExtensions\<close> reads, and one \<^verbatim>\<open>package.json\<close> of an extension
  directory.
\<close>

record PackageJSON =
  isBuiltin :: bool
  isUnderDevelopment :: bool
  packageUuid :: string

record HostExtension =
  hostId :: string
  packageJSON :: "PackageJSON option"

record Package =
  pkgName :: string
  pkgPublisher :: string
  metadataId :: "string option"

text \<open>
  The configuration section \<^verbatim>\<open>syncSettings\<close> of the editor: what \<^verbatim>\<open>config.get\<close>
  returns for the four properties, and the \<^verbatim>\<open>globalValue\<close> that
  \<^verbatim>\<open>config.inspect\<close> reports for each (\<open>None\<close> when the user has not set it).
\<close>

record Config =
  getKeybindingsPerPlatform :: "bool option"
  getIgnoredExtensions :: "string list option"
  getIgnoredSettings :: "string list option"
  getResources :: "Resource list option"
  globalValue :: ProfileSyncSettings

text \<open>
  The state that the file repository reads and writes. Every document is stored
  parsed, under the profile that owns it, so \<^verbatim>\<open>exists(path)\<close> is definedness of the
  map at that profile, \<^verbatim>\<open>fse.writeFile\<close> an update and \<^verbatim>\<open>fse.remove\<close> the removal of
  the entry. For a YAML document the entry \<open>Some None\<close> is a file whose content
  parses to \<^verbatim>\<open>null\<close> (an empty file). A document that is not \<^verbatim>\<open>null\<close> has the shape
  of the TypeScript type it is cast to, with two exceptions that the code depends on:
  the extension document (\<open>RawExtensions\<close>), and the snippets diff, kept as the table
  of its top-level keys because the code reads it under two different keys.

  The fields up to \<open>snippetsDiffYml\<close> are the profile tree under the repository root:
  \<^verbatim>\<open>profile.yml\<close>, \<^verbatim>\<open>.sync.yml\<close>, \<^verbatim>\<open>config.yml\<close>, \<^verbatim>\<open>data/extensions.yml\<close>, the older
  \<^verbatim>\<open>extensions.yml\<close>, the key bindings files by profile and file name,
  \<^verbatim>\<open>data/settings.json\<close>, \<^verbatim>\<open>data/ui-state.yml\<close>, \<^verbatim>\<open>data/ui-state.diff.yml\<close>, the
  files of \<^verbatim>\<open>data/snippets\<close> that \<^verbatim>\<open>globby('**')\<close> lists, by their path relative to
  that directory, with \<^verbatim>\<open>/\<close> between its parts (a missing directory lists no file),
  \<^verbatim>\<open>data/snippets.diff.yml\<close>. The other fields are the live
  environment: the configuration, \<^verbatim>\<open>keybindings.json\<close>, \<^verbatim>\<open>settings.json\<close> and the
  \<^verbatim>\<open>snippets\<close> directory of the user data path, the table \<^verbatim>\<open>ItemTable\<close> of the
  state database (\<open>None\<close> when there is no database), the extension data path and
  the home directory, the commands of the editor, the running extensions, the
  extension directories with their \<^verbatim>\<open>package.json\<close>, the names marked true in
  \<^verbatim>\<open>.obsolete\<close>, and the built-in extension packages.
\<close>

record world =
  initialized :: bool
  profile :: string
  extensionId :: string
  platform :: platform
  profileYml :: "string \<rightharpoonup> ProfileSettings option"
  syncYml :: "string \<rightharpoonup> ProfileSyncSettings option"
  configYml :: "string \<rightharpoonup> ProfileSyncSettings option"
  extensionsYml :: "string \<rightharpoonup> RawExtensions option"
  extensionsOldYml :: "string \<rightharpoonup> RawExtensions option"
  keybindingsJson :: "string \<times> string \<rightharpoonup> string"
  settingsJson :: "string \<rightharpoonup> string"
  uiStateYml :: "string \<rightharpoonup> yamlvalue obj option"
  uiStateDiffYml :: "string \<rightharpoonup> yamlvalue UIStateDiff option"
  snippetsDir :: "string \<Rightarrow> string obj"
  snippetsDiffYml :: "string \<rightharpoonup> string list obj option"
  config :: Config
  editorKeybindings :: "string option"
  editorUserSettings :: "string option"
  editorSnippets :: "string obj option"
  stateDB :: "sqlvalue obj option"
  extDataPath :: string
  homeDirectory :: string
  commands :: "string list"
  extensionsAll :: "HostExtension list"
  extensionPackages :: "(string \<times> Package) list"
  obsolete :: "string list"
  builtinPackages :: "Package list"

text \<open>
  The collaborators that are not among the sources, as parameters: the four extension
  commands of \<^verbatim>\<open>utils/\<close> (each returns whether it succeeded and may change anything),
  \<^verbatim>\<open>restartApp\<close> and the command \<^verbatim>\<open>workbench.action.reloadWindow\<close>, the modal
  \<^verbatim>\<open>showInformationMessage\<close> (the label chosen, or \<^verbatim>\<open>undefined\<close>), the text functions
  on JSON with comments, the SHA-1 digest in hexadecimal, \<^verbatim>\<open>JSON.stringify\<close> on a
  list of extensions, the value that \<^verbatim>\<open>yaml.parse\<close> returns for what
  \<^verbatim>\<open>yaml.stringify\<close> writes for a value of the state database, and the value that the
  driver of the state database stores for a parameter of a statement.
\<close>

record host =
  installExtension :: "string \<Rightarrow> world \<Rightarrow> bool \<times> world"
  enableExtension :: "string \<Rightarrow> world \<Rightarrow> bool \<times> world"
  disableExtension :: "string \<Rightarrow> world \<Rightarrow> bool \<times> world"
  uninstallExtension :: "string \<Rightarrow> world \<Rightarrow> bool \<times> world"
  restartApp :: "world \<Rightarrow> world"
  reloadWindow :: "world \<Rightarrow> world"
  showInformationMessage :: "world \<Rightarrow> string option"
  preprocessJSONC :: "string \<Rightarrow> string"
  extractProperties :: "string \<Rightarrow> string list \<Rightarrow> string"
  insertProperties :: "string \<Rightarrow> string \<Rightarrow> string"
  removeProperties :: "string \<Rightarrow> string list \<Rightarrow> string"
  comment :: "string \<Rightarrow> string"
  sha1 :: "string \<Rightarrow> string"
  jsonStringify :: "ExtensionId list \<Rightarrow> string"
  yamlRoundTrip :: "sqlvalue \<Rightarrow> yamlvalue"
  bindParameter :: "yamlvalue \<Rightarrow> sqlvalue"

text \<open>
  A method that changes the state returns its result, or the error it raised, with
  the state at that moment; \<open>None\<close> is a call that never returns (the walk along
  \<^verbatim>\<open>extends\<close> has no guard against a cycle).
\<close>

type_synonym 'a io = "((error + 'a) \<times> world) option"

text \<open>Sequencing: the second method runs in the state the first one left, unless it raised.\<close>

definition ioBind :: "'a io \<Rightarrow> ('a \<Rightarrow> world \<Rightarrow> 'b io) \<Rightarrow> 'b io" where
  "ioBind m f =
     (case m of
        None \<Rightarrow> None
      | Some (Inl e, w) \<Rightarrow> Some (Inl e, w)
      | Some (Inr a, w) \<Rightarrow> f a w)"

section \<open>Profile settings and the chain of ancestors\<close>

text \<open>\<^verbatim>\<open>loadProfileSettings\<close>: the parsed \<^verbatim>\<open>profile.yml\<close>, or \<^verbatim>\<open>{}\<close>.\<close>

definition loadProfileSettings :: "world \<Rightarrow> string \<Rightarrow> ProfileSettings" where
  "loadProfileSettings w p =
     (case profileYml w p of
        None \<Rightarrow> \<lparr>extends = None\<rparr>
      | Some None \<Rightarrow> \<lparr>extends = None\<rparr>
      | Some (Some settings) \<Rightarrow> settings)"

text \<open>The test \<^verbatim>\<open>settings.extends\<close> on the loaded settings, with the parent when it holds.\<close>

definition extendsOf :: "world \<Rightarrow> string \<Rightarrow> string option" where
  "extendsOf w p = truthy (extends (loadProfileSettings w p))"

text \<open>\<^verbatim>\<open>getAncestorProfile\<close>: the \<^verbatim>\<open>while(settings.extends)\<close> loop.\<close>

partial_function (option) getAncestorProfile :: "world \<Rightarrow> string \<Rightarrow> string option" where
  "getAncestorProfile w p =
     (case extendsOf w p of
        None \<Rightarrow> Some p
      | Some q \<Rightarrow> getAncestorProfile w q)"

text \<open>
  The chain of ancestors of a profile: the profile, its parent, and so on up to the
  profile that extends nothing. It is \<open>None\<close> when the \<^verbatim>\<open>extends\<close> links run into a
  cycle.
\<close>

partial_function (option) ancestorChain :: "world \<Rightarrow> string \<Rightarrow> string list option" where
  "ancestorChain w p =
     (case extendsOf w p of
        None \<Rightarrow> Some [p]
      | Some q \<Rightarrow> Option.bind (ancestorChain w q) (\<lambda>ps. Some (p # ps)))"

section \<open>Sync settings\<close>

text \<open>
  \<^verbatim>\<open>loadProfileSyncSettings\<close>: the document at \<^verbatim>\<open>.sync.yml\<close>, else the one at
  \<^verbatim>\<open>config.yml\<close>, else that of the parent, else the error. The document is returned
  as \<^verbatim>\<open>yaml.parse\<close> gives it: \<open>None\<close> is \<^verbatim>\<open>null\<close>.
\<close>

partial_function (option) loadProfileSyncSettings ::
  "world \<Rightarrow> string \<Rightarrow> (error + ProfileSyncSettings option) option" where
  "loadProfileSyncSettings w p =
     (case syncYml w p of
        Some settings \<Rightarrow> Some (Inr settings)
      | None \<Rightarrow>
          (case configYml w p of
             Some settings \<Rightarrow> Some (Inr settings)
           | None \<Rightarrow>
               (case extendsOf w p of
                  Some q \<Rightarrow> loadProfileSyncSettings w q
                | None \<Rightarrow> Some (Inl SyncSettingsNotFound))))"

text \<open>Whether a profile has a sync-settings document at either path.\<close>

definition hasSyncSettings :: "world \<Rightarrow> string \<Rightarrow> bool" where
  "hasSyncSettings w p \<longleftrightarrow> syncYml w p \<noteq> None \<or> configYml w p \<noteq> None"

text \<open>The document that \<^verbatim>\<open>loadProfileSyncSettings\<close> reads at a profile that has one.\<close>

definition ownSyncSettings :: "world \<Rightarrow> string \<Rightarrow> ProfileSyncSettings option option" where
  "ownSyncSettings w p = (case syncYml w p of Some settings \<Rightarrow> Some settings | None \<Rightarrow> configYml w p)"

section \<open>Reading a profile\<close>

subsection \<open>Extensions\<close>

definition fromNames :: "string list \<Rightarrow> ExtensionId list" where
  "fromNames names = map (\<lambda>i. \<lparr>id_ext = i, uuid = NIL_UUID\<rparr>) names"

text \<open>
  The decoding of \<^verbatim>\<open>listProfileExtensions\<close> for a profile that extends nothing:
  \<^verbatim>\<open>raw.disabled.length > 0 && typeof raw.disabled[0] === 'string' ?
  raw.disabled.map((id) => ({ id, uuid: NIL_UUID })) : raw.disabled\<close>, and the same for
  \<^verbatim>\<open>enabled\<close>. The result has no \<^verbatim>\<open>uninstall\<close>.
\<close>

fun decodeBaseline :: "RawExtensions \<Rightarrow> ExtensionList" where
  "decodeBaseline (LegacyDoc dis en un) =
     \<lparr>builtin = None,
      disabled = (if length dis > 0 then fromNames dis else []),
      enabled = (if length en > 0 then fromNames en else []),
      uninstall = None\<rparr>"
| "decodeBaseline (StructuredDoc dis en un) =
     \<lparr>builtin = None, disabled = dis, enabled = en, uninstall = None\<rparr>"

text \<open>
  The decoding for a profile that extends another (the object \<^verbatim>\<open>extensions\<close>). The
  third field is
  \<^verbatim>\<open>!raw.uninstall ? undefined : (raw.uninstall.length > 0 && typeof raw.uninstall[0]
  === 'string' ? raw.disabled.map((id) => ({ id, uuid: NIL_UUID })) : raw.uninstall)\<close>:
  the test is on \<^verbatim>\<open>raw.uninstall\<close>, the array mapped is \<^verbatim>\<open>raw.disabled\<close>.
\<close>

fun decodeDiff :: "RawExtensions \<Rightarrow> ExtensionList" where
  "decodeDiff (LegacyDoc dis en un) =
     \<lparr>builtin = None,
      disabled = (if length dis > 0 then fromNames dis else []),
      enabled = (if length en > 0 then fromNames en else []),
      uninstall =
        (case un of
           None \<Rightarrow> None
         | Some names \<Rightarrow> Some (if length names > 0 then fromNames dis else []))\<rparr>"
| "decodeDiff (StructuredDoc dis en un) =
     \<lparr>builtin = None, disabled = dis, enabled = en, uninstall = un\<rparr>"

text \<open>
  The parsed document at \<^verbatim>\<open>data/extensions.yml\<close> when that file exists, else the
  one at the older path, else nothing.
\<close>

definition readExtensions :: "world \<Rightarrow> string \<Rightarrow> RawExtensions option option" where
  "readExtensions w p =
     (case extensionsYml w p of Some raw \<Rightarrow> Some raw | None \<Rightarrow> extensionsOldYml w p)"

text \<open>
  \<^verbatim>\<open>listProfileExtensions\<close>. On a document that parses to \<^verbatim>\<open>null\<close> the decoding
  raises a TypeError (\<^verbatim>\<open>raw.disabled\<close>); for a profile that extends another the
  document is decoded before the list of the parent is computed.
\<close>

partial_function (option) listProfileExtensions ::
  "world \<Rightarrow> string \<Rightarrow> (error + ExtensionList) option" where
  "listProfileExtensions w p =
     (case extendsOf w p of
        None \<Rightarrow>
          (case readExtensions w p of
             None \<Rightarrow> Some (Inr \<lparr>builtin = None, disabled = [], enabled = [], uninstall = None\<rparr>)
           | Some None \<Rightarrow> Some (Inl TypeError)
           | Some (Some raw) \<Rightarrow> Some (Inr (decodeBaseline raw)))
      | Some q \<Rightarrow>
          (case readExtensions w p of
             None \<Rightarrow> listProfileExtensions w q
           | Some None \<Rightarrow> Some (Inl TypeError)
           | Some (Some raw) \<Rightarrow>
               Option.bind (listProfileExtensions w q)
                 (\<lambda>r. case r of
                         Inl e \<Rightarrow> Some (Inl e)
                       | Inr ancestors \<Rightarrow>
                           Some (Inr (applyExtensionsDiff ancestors (decodeDiff raw))))))"

text \<open>
  The test \<^verbatim>\<open>/^(.*?)-\d+\.\d+\.\d+$/\<close> on a directory name, read from the end of the
  name: digits, a dot, digits, a dot, digits, a hyphen, and before it no line break
  (which the dot of the pattern does not match).
\<close>

definition isDigit :: "char \<Rightarrow> bool" where
  "isDigit c \<longleftrightarrow> c \<in> set ''0123456789''"

definition versionSuffix :: "string \<Rightarrow> bool" where
  "versionSuffix name =
     (let r1 = rev name;
          r2 = dropWhile isDigit r1;
          r3 = dropWhile isDigit (drop 1 r2);
          r4 = dropWhile isDigit (drop 1 r3)
      in takeWhile isDigit r1 \<noteq> [] \<and> take 1 r2 = ''.'' \<and>
         takeWhile isDigit (drop 1 r2) \<noteq> [] \<and> take 1 r3 = ''.'' \<and>
         takeWhile isDigit (drop 1 r3) \<noteq> [] \<and> take 1 r4 = ''-'' \<and>
         CHR 0x0A \<notin> set (drop 1 r4) \<and> CHR 0x0D \<notin> set (drop 1 r4))"

definition packageId :: "Package \<Rightarrow> string" where
  "packageId pkg = pkgPublisher pkg @ ''.'' @ pkgName pkg"

text \<open>
  \<^verbatim>\<open>listEditorExtensions\<close> of \<^verbatim>\<open>repository.ts\<close>, its three loops in turn: the running
  extensions give \<^verbatim>\<open>enabled\<close> and the table \<^verbatim>\<open>ids\<close>, the extension directories give
  \<^verbatim>\<open>disabled\<close>, the built-in packages give \<^verbatim>\<open>builtin.disabled\<close>.
\<close>

definition skipped :: "world \<Rightarrow> string list \<Rightarrow> HostExtension \<Rightarrow> bool" where
  "skipped w ignored extension =
     (case packageJSON extension of
        None \<Rightarrow> True
      | Some pj \<Rightarrow> isUnderDevelopment pj \<or> hostId extension = extensionId w \<or>
                   hostId extension \<in> set ignored)"

definition runningEnabled :: "world \<Rightarrow> string list \<Rightarrow> ExtensionId list" where
  "runningEnabled w ignored =
     concat (map (\<lambda>extension.
        if skipped w ignored extension then []
        else (case packageJSON extension of
                None \<Rightarrow> []
              | Some pj \<Rightarrow> if \<not> isBuiltin pj
                           then [\<lparr>id_ext = hostId extension, uuid = packageUuid pj\<rparr>] else []))
       (extensionsAll w))"

definition runningIds :: "world \<Rightarrow> string list \<Rightarrow> string list" where
  "runningIds w ignored =
     map hostId (filter (\<lambda>extension. \<not> skipped w ignored extension) (extensionsAll w))"

definition installedDisabled :: "world \<Rightarrow> string list \<Rightarrow> ExtensionId list" where
  "installedDisabled w ignored =
     concat (map (\<lambda>(name, pkg).
        if name \<in> set (obsolete w) then []
        else if \<not> versionSuffix name then []
        else if packageId pkg \<in> set (obsolete w) then []
        else if packageId pkg \<notin> set (runningIds w ignored) \<and> packageId pkg \<noteq> extensionId w \<and>
                packageId pkg \<notin> set ignored
             then [\<lparr>id_ext = packageId pkg,
                    uuid = (case metadataId pkg of None \<Rightarrow> NIL_UUID | Some u \<Rightarrow> u)\<rparr>]
             else [])
       (extensionPackages w))"

definition builtinDisabled :: "world \<Rightarrow> string list \<Rightarrow> string list" where
  "builtinDisabled w ignored =
     map packageId (filter (\<lambda>pkg. packageId pkg \<notin> set (runningIds w ignored)) (builtinPackages w))"

definition listEditorExtensions :: "world \<Rightarrow> string list \<Rightarrow> ExtensionList" where
  "listEditorExtensions w ignored =
     \<lparr>builtin = (if length (builtinDisabled w ignored) > 0
                  then Some (builtinDisabled w ignored) else None),
      disabled = installedDisabled w ignored,
      enabled = runningEnabled w ignored,
      uninstall = None\<rparr>"

text \<open>\<^verbatim>\<open>canManageExtensions\<close>.\<close>

definition canManageExtensions :: "world \<Rightarrow> bool" where
  "canManageExtensions w =
     list_ex (\<lambda>command. command = ''workbench.extensions.disableExtension'' \<or>
                        command = ''workbench.extensions.enableExtension'') (commands w)"

subsection \<open>Snippets\<close>

text \<open>
  The part of \<^verbatim>\<open>listProfileSnippetHashes\<close> and of \<^verbatim>\<open>listProfileSnippetPaths\<close> that
  applies the diff document of the profile, when there is one, to the table inherited
  from the parent: \<^verbatim>\<open>for(const name of diff[key]) if(snippets[name]) delete
  snippets[name]\<close>. The key is \<^verbatim>\<open>remove\<close> in the first method and \<^verbatim>\<open>removed\<close> in the
  second. A document without that key gives \<^verbatim>\<open>undefined\<close>, and \<^verbatim>\<open>for ... of\<close> over
  \<^verbatim>\<open>undefined\<close> raises a TypeError; so does reading the key of a document that
  parses to \<^verbatim>\<open>null\<close>. \<open>isTruthy\<close> is the test \<^verbatim>\<open>if(snippets[name])\<close> on the value
  stored, a string in both methods.
\<close>

definition removeListed ::
  "('a \<Rightarrow> bool) \<Rightarrow> string \<Rightarrow> string list obj option option \<Rightarrow> 'a obj \<Rightarrow> error + 'a obj" where
  "removeListed isTruthy key diffDoc snippets =
     (case diffDoc of
        None \<Rightarrow> Inr snippets
      | Some None \<Rightarrow> Inl TypeError
      | Some (Some diff) \<Rightarrow>
          (case map_of diff key of
             None \<Rightarrow> Inl TypeError
           | Some names \<Rightarrow>
               Inr (foldl (\<lambda>acc name.
                      (case map_of acc name of
                         None \<Rightarrow> acc
                       | Some v \<Rightarrow> if isTruthy v then objDelete name acc else acc))
                    snippets names)))"

text \<open>
  The last loop of \<^verbatim>\<open>listProfileSnippetHashes\<close>: every file of the snippets directory
  of the profile is read and its digest stored under its name.
\<close>

definition hashFiles :: "host \<Rightarrow> string obj \<Rightarrow> string obj \<Rightarrow> string obj" where
  "hashFiles h files snippets = foldl (\<lambda>acc (file, data). objSet file (sha1 h data) acc) snippets files"

partial_function (option) listProfileSnippetHashes ::
  "host \<Rightarrow> world \<Rightarrow> string \<Rightarrow> (error + string obj) option" where
  "listProfileSnippetHashes h w p =
     (case extendsOf w p of
        Some q \<Rightarrow>
          Option.bind (listProfileSnippetHashes h w q)
            (\<lambda>r. case r of
                    Inl e \<Rightarrow> Some (Inl e)
                  | Inr inherited \<Rightarrow>
                      (case removeListed (\<lambda>v. v \<noteq> []) ''remove'' (snippetsDiffYml w p) inherited of
                         Inl e \<Rightarrow> Some (Inl e)
                       | Inr snippets \<Rightarrow> Some (Inr (hashFiles h (snippetsDir w p) snippets))))
      | None \<Rightarrow> Some (Inr (hashFiles h (snippetsDir w p) [])))"

text \<open>
  \<^verbatim>\<open>listProfileSnippetPaths\<close>. A path \<^verbatim>\<open>path.join(dataPath, file)\<close> is the pair of the
  profile that owns the directory and the file name; as a string it is never empty.
\<close>

definition pathFiles :: "string \<Rightarrow> string obj \<Rightarrow> (string \<times> string) obj \<Rightarrow> (string \<times> string) obj" where
  "pathFiles p files snippets = foldl (\<lambda>acc (file, data). objSet file (p, file) acc) snippets files"

partial_function (option) listProfileSnippetPaths ::
  "world \<Rightarrow> string \<Rightarrow> (error + (string \<times> string) obj) option" where
  "listProfileSnippetPaths w p =
     (case extendsOf w p of
        Some q \<Rightarrow>
          Option.bind (listProfileSnippetPaths w q)
            (\<lambda>r. case r of
                    Inl e \<Rightarrow> Some (Inl e)
                  | Inr inherited \<Rightarrow>
                      (case removeListed (\<lambda>v. True) ''removed'' (snippetsDiffYml w p) inherited of
                         Inl e \<Rightarrow> Some (Inl e)
                       | Inr snippets \<Rightarrow> Some (Inr (pathFiles p (snippetsDir w p) snippets))))
      | None \<Rightarrow> Some (Inr (pathFiles p (snippetsDir w p) [])))"

subsection \<open>UI state\<close>

text \<open>
  The SQL test \<^verbatim>\<open>key LIKE 'workbench.%'\<close>: the key starts with the text before the
  wildcard, and \<^verbatim>\<open>LIKE\<close> of SQLite does not tell an upper-case ASCII letter from the
  lower-case one.
\<close>

definition lowerASCII :: "char \<Rightarrow> char" where
  "lowerASCII c =
     (case map_of (zip ''ABCDEFGHIJKLMNOPQRSTUVWXYZ'' ''abcdefghijklmnopqrstuvwxyz'') c of
        Some l \<Rightarrow> l
      | None \<Rightarrow> c)"

definition likeWorkbench :: "string \<Rightarrow> bool" where
  "likeWorkbench key \<longleftrightarrow> map lowerASCII (take 10 key) = ''workbench.''"

text \<open>
  Modelled from the spec: \<^verbatim>\<open>readStateDB\<close> of \<^verbatim>\<open>utils/read-statedb\<close>, which is not
  among the sources. It returns the rows of the key-value store that the query
  selects, here \<^verbatim>\<open>key IN ('k1', ..., 'kn') OR key LIKE 'workbench.%'\<close>, or nothing
  when there is no store. With no key the list of the query is \<^verbatim>\<open>('')\<close>. (An
  identifier with a quote in it, which would end the SQL string, is outside this
  model.)
\<close>

definition readStateDB :: "world \<Rightarrow> string list \<Rightarrow> sqlvalue obj option" where
  "readStateDB w keys =
     (case stateDB w of
        None \<Rightarrow> None
      | Some rows \<Rightarrow>
          Some (filter (\<lambda>(key, v).
                  key \<in> set (if keys = [] then [''''] else keys) \<or> likeWorkbench key)
                rows))"

definition EXTENSION_DATA_PATH :: string where
  "EXTENSION_DATA_PATH = ''%%EXTENSION_DATA_PATH%%''"

text \<open>
  \<^verbatim>\<open>listEditorUIStateProperties\<close>. A string value has the extension data path replaced
  by the placeholder, and is left out when it then contains the home directory.
\<close>

definition captureRow :: "world \<Rightarrow> sqlvalue obj \<Rightarrow> string \<times> sqlvalue \<Rightarrow> sqlvalue obj" where
  "captureRow w properties row =
     (case snd row of
        SqlString s \<Rightarrow>
          (let replaced = replaceAll (extDataPath w) EXTENSION_DATA_PATH s
           in if includesStr replaced (homeDirectory w) then properties
              else objSet (fst row) (SqlString replaced) properties)
      | other \<Rightarrow> objSet (fst row) other properties)"

definition listEditorUIStateProperties :: "world \<Rightarrow> ExtensionList option \<Rightarrow> sqlvalue obj" where
  "listEditorUIStateProperties w given =
     (let extensions = (case given of None \<Rightarrow> listEditorExtensions w [] | Some e \<Rightarrow> e);
          keys = map id_ext (disabled extensions) @ map id_ext (enabled extensions)
      in case readStateDB w keys of
           None \<Rightarrow> []
         | Some rows \<Rightarrow> foldl (captureRow w) [] rows)"

text \<open>
  The replay of a UI-state diff in \<^verbatim>\<open>listProfileUIStateProperties\<close>: every entry of
  \<^verbatim>\<open>modified\<close> is assigned, then every key of \<^verbatim>\<open>removed\<close> is deleted. When the
  properties of the parent are \<^verbatim>\<open>null\<close> the first assignment or deletion raises a
  TypeError, and \<^verbatim>\<open>null\<close> is returned when there is none to make.
\<close>

definition applyUIStateDiff ::
  "yamlvalue UIStateDiff \<Rightarrow> yamlvalue obj option \<Rightarrow> error + yamlvalue obj option" where
  "applyUIStateDiff diff inherited =
     (case inherited of
        None \<Rightarrow> if modified diff = [] \<and> removed diff = [] then Inr None else Inl TypeError
      | Some properties \<Rightarrow>
          Inr (Some (foldl (\<lambda>acc key. objDelete key acc)
                       (foldl (\<lambda>acc (key, v). objSet key v acc) properties (modified diff))
                       (removed diff))))"

text \<open>
  \<^verbatim>\<open>listProfileUIStateProperties\<close>. The result is the parsed document or the object
  built from it, so it is \<^verbatim>\<open>null\<close> (\<open>None\<close>) when the baseline document parses to
  \<^verbatim>\<open>null\<close>; a diff document that parses to \<^verbatim>\<open>null\<close> is skipped by \<^verbatim>\<open>if(!diff)\<close>.
\<close>

partial_function (option) listProfileUIStateProperties ::
  "world \<Rightarrow> string \<Rightarrow> (error + yamlvalue obj option) option" where
  "listProfileUIStateProperties w p =
     (case extendsOf w p of
        None \<Rightarrow>
          (case uiStateYml w p of
             None \<Rightarrow> Some (Inr (Some []))
           | Some parsed \<Rightarrow> Some (Inr parsed))
      | Some q \<Rightarrow>
          Option.bind (listProfileUIStateProperties w q)
            (\<lambda>r. case r of
                    Inl e \<Rightarrow> Some (Inl e)
                  | Inr inherited \<Rightarrow>
                      (case uiStateDiffYml w p of
                         None \<Rightarrow> Some (Inr inherited)
                       | Some None \<Rightarrow> Some (Inr inherited)
                       | Some (Some diff) \<Rightarrow> Some (applyUIStateDiff diff inherited))))"

subsection \<open>Key bindings\<close>

text \<open>
  \<^verbatim>\<open>getProfileKeybindingsPath\<close> (with the default, empty, suffix): the file, as the
  profile and the file name inside its data directory.
\<close>

definition getProfileKeybindingsPath :: "world \<Rightarrow> string \<Rightarrow> bool \<Rightarrow> string \<times> string" where
  "getProfileKeybindingsPath w p perPlatform =
     (if perPlatform
      then (case platform w of
              Darwin \<Rightarrow> (p, ''keybindings-macos.json'')
            | Linux \<Rightarrow> (p, ''keybindings-linux.json'')
            | Win32 \<Rightarrow> (p, ''keybindings-windows.json'')
            | OtherPlatform \<Rightarrow> (p, ''keybindings.json''))
      else (p, ''keybindings.json''))"

text \<open>\<^verbatim>\<open>syncSettings.keybindingsPerPlatform ?? true\<close>.\<close>

definition perPlatformOf :: "ProfileSyncSettings \<Rightarrow> bool" where
  "perPlatformOf syncSettings =
     (case keybindingsPerPlatform syncSettings of None \<Rightarrow> True | Some b \<Rightarrow> b)"

text \<open>
  \<^verbatim>\<open>getProfileKeybindings\<close>: the text of the file, or \<^verbatim>\<open>undefined\<close>. Reading
  \<^verbatim>\<open>keybindingsPerPlatform\<close> of sync settings that are \<^verbatim>\<open>null\<close> raises a TypeError.
\<close>

definition getProfileKeybindings :: "world \<Rightarrow> string \<Rightarrow> bool \<Rightarrow> (error + string option) option" where
  "getProfileKeybindings w p perPlatform =
     (case loadProfileSyncSettings w p of
        None \<Rightarrow> None
      | Some (Inl e) \<Rightarrow> Some (Inl e)
      | Some (Inr None) \<Rightarrow> Some (Inl TypeError)
      | Some (Inr (Some syncSettings)) \<Rightarrow>
          (let profilePerPlatform = perPlatformOf syncSettings
           in if profilePerPlatform \<noteq> perPlatform then Some (Inr None)
              else Some (Inr (keybindingsJson w (getProfileKeybindingsPath w p perPlatform)))))"

section \<open>Serializing a profile\<close>

definition defaultResources :: "Resource list" where
  "defaultResources = [Extensions, Keybindings, Settings, Snippets, UIState]"

text \<open>
  The document that \<^verbatim>\<open>yaml.stringify\<close> writes for an extension list, parsed: arrays of
  records. (The \<^verbatim>\<open>builtin\<close> part of a live list is written too; no method reads it
  back.)
\<close>

definition encodeExtensions :: "ExtensionList \<Rightarrow> RawExtensions" where
  "encodeExtensions l = StructuredDoc (disabled l) (enabled l) (uninstall l)"

text \<open>
  \<^verbatim>\<open>serializeExtensions\<close>. The error of \<^verbatim>\<open>listProfileExtensions\<close> comes before any
  write.
\<close>

definition serializeExtensions :: "world \<Rightarrow> ProfileSettings \<Rightarrow> ExtensionList io" where
  "serializeExtensions w profileSettings =
     (let ignored = (case getIgnoredExtensions (config w) of None \<Rightarrow> [] | Some l \<Rightarrow> l);
          editor = listEditorExtensions w ignored
      in case truthy (extends profileSettings) of
           Some q \<Rightarrow>
             (case listProfileExtensions w q of
                None \<Rightarrow> None
              | Some (Inl e) \<Rightarrow> Some (Inl e, w)
              | Some (Inr stored) \<Rightarrow>
                  Some (Inr editor,
                    w\<lparr>extensionsYml := (extensionsYml w)
                         (profile w \<mapsto> Some (encodeExtensions (extensionsDiff editor stored))),
                      extensionsOldYml := (extensionsOldYml w)(profile w := None)\<rparr>))
         | None \<Rightarrow>
             Some (Inr editor,
               w\<lparr>extensionsYml := (extensionsYml w)(profile w \<mapsto> Some (encodeExtensions editor)),
                 extensionsOldYml := (extensionsOldYml w)(profile w := None)\<rparr>))"

text \<open>
  \<^verbatim>\<open>saveSnippetsDiff({ removed })\<close>: the document has the one key \<^verbatim>\<open>removed\<close>.
\<close>

definition saveSnippetsDiff :: "world \<Rightarrow> string list \<Rightarrow> world" where
  "saveSnippetsDiff w names =
     w\<lparr>snippetsDiffYml := (snippetsDiffYml w)(profile w \<mapsto> Some [(''removed'', names)])\<rparr>"

definition listEditorSnippets :: "world \<Rightarrow> string list" where
  "listEditorSnippets w = (case editorSnippets w of None \<Rightarrow> [] | Some files \<Rightarrow> objKeys files)"

text \<open>
  One round of the loop of \<^verbatim>\<open>serializeSnippets\<close> over the live files, on the pair of
  the array \<^verbatim>\<open>editor\<close> and the array \<^verbatim>\<open>removed\<close>: a file whose digest is the inherited
  one leaves \<^verbatim>\<open>editor\<close>; a file with no (truthy) inherited digest is pushed on
  \<^verbatim>\<open>removed\<close>.
\<close>

definition snippetStep ::
  "host \<Rightarrow> string obj \<Rightarrow> string list \<times> string list \<Rightarrow> string \<times> string \<Rightarrow> string list \<times> string list" where
  "snippetStep h stored s entry =
     (let hash = sha1 h (snd entry)
      in case map_of stored (fst entry) of
           None \<Rightarrow> (fst s, snd s @ [fst entry])
         | Some inherited \<Rightarrow>
             if inherited \<noteq> []
             then (if hash = inherited then (remove1 (fst entry) (fst s), snd s) else s)
             else (fst s, snd s @ [fst entry]))"

text \<open>
  A file name that \<^verbatim>\<open>globby('**')\<close> lists for a file below a sub-directory. After
  \<^verbatim>\<open>fse.emptyDir\<close> the target directory has no sub-directory, and \<^verbatim>\<open>fse.copyFile\<close>
  creates none: copying to such a name raises \<open>ENOENT\<close>.
\<close>

definition inSubdirectory :: "string \<Rightarrow> bool" where
  "inSubdirectory name \<longleftrightarrow> CHR ''/'' \<in> set name"

text \<open>
  The end of \<^verbatim>\<open>serializeSnippets\<close>: the snippets directory of the profile is emptied
  and the files left in \<^verbatim>\<open>editor\<close> are copied into it one by one, or the directory
  is removed when none is left. A copy that raises leaves the files copied before it.
\<close>

definition copyToProfile :: "world \<Rightarrow> string obj \<Rightarrow> unit io \<Rightarrow> string \<Rightarrow> unit io" where
  "copyToProfile w files acc file =
     ioBind acc (\<lambda>_ w1.
       if inSubdirectory file then Some (Inl ENOENT, w1)
       else (case map_of files file of
               None \<Rightarrow> Some (Inl ENOENT, w1)
             | Some data \<Rightarrow>
                 Some (Inr (),
                   w1\<lparr>snippetsDir := (snippetsDir w1)
                        (profile w := objSet file data (snippetsDir w1 (profile w)))\<rparr>)))"

definition storeSnippets :: "world \<Rightarrow> string obj \<Rightarrow> string list \<Rightarrow> unit io" where
  "storeSnippets w files editor =
     (if length editor > 0
      then foldl (copyToProfile w files)
             (Some (Inr (), w\<lparr>snippetsDir := (snippetsDir w)(profile w := [])\<rparr>)) editor
      else Some (Inr (), w\<lparr>snippetsDir := (snippetsDir w)(profile w := [])\<rparr>))"

text \<open>\<^verbatim>\<open>serializeSnippets\<close>.\<close>

definition serializeSnippets :: "host \<Rightarrow> world \<Rightarrow> ProfileSettings \<Rightarrow> unit io" where
  "serializeSnippets h w profileSettings =
     (let files = (case editorSnippets w of None \<Rightarrow> [] | Some fs \<Rightarrow> fs);
          editor = listEditorSnippets w
      in case truthy (extends profileSettings) of
           Some q \<Rightarrow>
             (case listProfileSnippetHashes h w q of
                None \<Rightarrow> None
              | Some (Inl e) \<Rightarrow> Some (Inl e, w)
              | Some (Inr stored) \<Rightarrow>
                  (let s = (if length editor > 0
                            then foldl (snippetStep h stored) (editor, []) files
                            else (editor, objKeys stored));
                       w1 = (if length (snd s) > 0 then saveSnippetsDiff w (snd s) else w)
                   in storeSnippets w1 files (fst s)))
         | None \<Rightarrow> storeSnippets w files editor)"

text \<open>
  Modelled from the spec: \<^verbatim>\<open>isEmpty\<close> of \<^verbatim>\<open>utils/is-empty\<close>, which is not among the
  sources: an object with no key.
\<close>

definition isEmpty :: "'a obj \<Rightarrow> bool" where
  "isEmpty ob \<longleftrightarrow> ob = []"

text \<open>
  What \<^verbatim>\<open>yaml.parse\<close> returns for the text that \<^verbatim>\<open>yaml.stringify\<close> writes for a table
  of values of the state database: the same keys, each value as the library returns
  it.
\<close>

definition stringified :: "host \<Rightarrow> sqlvalue obj \<Rightarrow> yamlvalue obj" where
  "stringified h ob = map (\<lambda>(key, v). (key, yamlRoundTrip h v)) ob"

text \<open>\<^verbatim>\<open>saveUIStateDiff\<close>.\<close>

definition saveUIStateDiff :: "host \<Rightarrow> world \<Rightarrow> sqlvalue UIStateDiff \<Rightarrow> world" where
  "saveUIStateDiff h w diff =
     (if length (removed diff) > 0 \<or> \<not> isEmpty (modified diff)
      then w\<lparr>uiStateDiffYml := (uiStateDiffYml w)
               (profile w \<mapsto> Some \<lparr>modified = stringified h (modified diff),
                                      removed = removed diff\<rparr>)\<rparr>
      else w)"

text \<open>
  The table \<^verbatim>\<open>modified\<close> of \<^verbatim>\<open>serializeUIState\<close>:
  \<^verbatim>\<open>for(const [key, value] of Object.entries(editor)) if(value !== profile[key])
  modified[key] = value\<close>.
\<close>

definition modifiedOf :: "sqlvalue obj \<Rightarrow> yamlvalue obj \<Rightarrow> sqlvalue obj" where
  "modifiedOf editor stored =
     foldl (\<lambda>acc (key, v).
              if strictNeq v (map_of stored key) then objSet key v acc else acc)
       [] editor"

text \<open>The diff of \<^verbatim>\<open>serializeUIState\<close> for a profile that extends another.\<close>

definition uiStateDiff :: "sqlvalue obj \<Rightarrow> yamlvalue obj \<Rightarrow> sqlvalue UIStateDiff" where
  "uiStateDiff editor stored =
     \<lparr>modified = modifiedOf editor stored,
      removed = arrayDiff (objKeys stored) (objKeys editor)\<rparr>"

text \<open>
  \<^verbatim>\<open>serializeUIState\<close>. When the properties of the parent are \<^verbatim>\<open>null\<close>,
  \<^verbatim>\<open>Object.keys(profile)\<close> raises a TypeError.
\<close>

definition serializeUIState ::
  "host \<Rightarrow> world \<Rightarrow> ProfileSettings \<Rightarrow> ExtensionList option \<Rightarrow> unit io" where
  "serializeUIState h w profileSettings extensions =
     (let editor = listEditorUIStateProperties w extensions
      in case truthy (extends profileSettings) of
           Some q \<Rightarrow>
             (case listProfileUIStateProperties w q of
                None \<Rightarrow> None
              | Some (Inl e) \<Rightarrow> Some (Inl e, w)
              | Some (Inr None) \<Rightarrow> Some (Inl TypeError, w)
              | Some (Inr (Some stored)) \<Rightarrow>
                  Some (Inr (), saveUIStateDiff h w (uiStateDiff editor stored)))
         | None \<Rightarrow>
             Some (Inr (), w\<lparr>uiStateYml := (uiStateYml w)
                                 (profile w \<mapsto> Some (stringified h editor))\<rparr>))"

text \<open>\<^verbatim>\<open>serializeKeybindings\<close>; \<^verbatim>\<open>if(editor)\<close> is false for no text and for the empty text.\<close>

definition serializeKeybindings :: "host \<Rightarrow> world \<Rightarrow> unit io" where
  "serializeKeybindings h w =
     (let perPlatform = (case getKeybindingsPerPlatform (config w) of None \<Rightarrow> True | Some b \<Rightarrow> b);
          editor = (case editorKeybindings w of None \<Rightarrow> None | Some text \<Rightarrow> Some (comment h text));
          dataPath = getProfileKeybindingsPath w (profile w) perPlatform
      in case truthy editor of
           Some text \<Rightarrow> Some (Inr (), w\<lparr>keybindingsJson := (keybindingsJson w)(dataPath \<mapsto> text)\<rparr>)
         | None \<Rightarrow> Some (Inr (), w\<lparr>keybindingsJson := (keybindingsJson w)(dataPath := None)\<rparr>))"

text \<open>\<^verbatim>\<open>getIgnoredSettings\<close> of \<^verbatim>\<open>repository.ts\<close>.\<close>

definition getIgnoredSettingsOf :: "Config \<Rightarrow> string list" where
  "getIgnoredSettingsOf c =
     filter (\<lambda>value. \<not> startsWith value ''syncSettings'')
       (case getIgnoredSettings c of None \<Rightarrow> [] | Some l \<Rightarrow> l)"

definition serializeUserSettings :: "host \<Rightarrow> world \<Rightarrow> unit io" where
  "serializeUserSettings h w =
     (let editor = (case editorUserSettings w of
                      None \<Rightarrow> None
                    | Some text \<Rightarrow>
                        Some (comment h (removeProperties h text (getIgnoredSettingsOf (config w)))))
      in case truthy editor of
           Some text \<Rightarrow> Some (Inr (), w\<lparr>settingsJson := (settingsJson w)(profile w \<mapsto> text)\<rparr>)
         | None \<Rightarrow> Some (Inr (), w\<lparr>settingsJson := (settingsJson w)(profile w := None)\<rparr>))"

text \<open>
  One round of the loop of \<^verbatim>\<open>saveProfileSyncSettings\<close>, for one property: what it adds
  to \<^verbatim>\<open>length\<close>. The first argument is \<open>None\<close> when \<^verbatim>\<open>!ancestors\<close> holds (there is no
  \<^verbatim>\<open>ancestors\<close> object, or it is \<^verbatim>\<open>null\<close>) and the value of \<^verbatim>\<open>ancestors[property]\<close>
  otherwise; the second is the
  \<^verbatim>\<open>globalValue\<close>. \<^verbatim>\<open>deepEqual\<close> on a boolean or on an array of strings is equality.
\<close>

definition countDiffering :: "'a option option \<Rightarrow> 'a option \<Rightarrow> nat" where
  "countDiffering inherited global =
     (case global of
        None \<Rightarrow> 0
      | Some v \<Rightarrow>
          (case inherited of
             None \<Rightarrow> 1
           | Some a \<Rightarrow> if a \<noteq> Some v then 1 else 0))"

text \<open>
  \<^verbatim>\<open>length\<close> at the end of the loop over the four properties. The object \<^verbatim>\<open>settings\<close>
  at that point holds the \<^verbatim>\<open>globalValue\<close> of every property that has one, so it is
  \<open>globalValue (config w)\<close>.
\<close>

definition differingLength :: "ProfileSyncSettings option \<Rightarrow> ProfileSyncSettings \<Rightarrow> nat" where
  "differingLength ancestors global =
     countDiffering (map_option keybindingsPerPlatform ancestors) (keybindingsPerPlatform global) +
     countDiffering (map_option ignoredExtensions ancestors) (ignoredExtensions global) +
     countDiffering (map_option ignoredSettings ancestors) (ignoredSettings global) +
     countDiffering (map_option resources ancestors) (resources global)"

definition writeSyncSettings :: "world \<Rightarrow> ProfileSyncSettings option \<Rightarrow> world" where
  "writeSyncSettings w ancestors =
     (let w1 = w\<lparr>configYml := (configYml w)(profile w := None)\<rparr>
      in if differingLength ancestors (globalValue (config w)) > 0
         then w1\<lparr>syncYml := (syncYml w1)(profile w \<mapsto> Some (globalValue (config w)))\<rparr>
         else w1\<lparr>syncYml := (syncYml w1)(profile w := None)\<rparr>)"

definition saveProfileSyncSettings :: "world \<Rightarrow> unit io" where
  "saveProfileSyncSettings w =
     (case extendsOf w (profile w) of
        Some q \<Rightarrow>
          (case loadProfileSyncSettings w q of
             None \<Rightarrow> None
           | Some (Inl e) \<Rightarrow> Some (Inl e, w)
           | Some (Inr ancestors) \<Rightarrow> Some (Inr (), writeSyncSettings w ancestors))
      | None \<Rightarrow> Some (Inr (), writeSyncSettings w None))"

text \<open>\<^verbatim>\<open>serializeProfile\<close>.\<close>

definition serializeProfile :: "host \<Rightarrow> world \<Rightarrow> unit io" where
  "serializeProfile h w =
     (if \<not> initialized w then Some (Inl NotInitialized, w)
      else
        let selected = (case getResources (config w) of None \<Rightarrow> defaultResources | Some r \<Rightarrow> r);
            profileSettings = loadProfileSettings w (profile w)
        in ioBind (if Extensions \<in> set selected
                   then ioBind (serializeExtensions w profileSettings) (\<lambda>e w1. Some (Inr (Some e), w1))
                   else Some (Inr None, w))
           (\<lambda>extensions w1.
              ioBind (if Snippets \<in> set selected then serializeSnippets h w1 profileSettings
                      else Some (Inr (), w1))
              (\<lambda>_ w2.
                 ioBind (if UIState \<in> set selected
                         then serializeUIState h w2 profileSettings extensions
                         else Some (Inr (), w2))
                 (\<lambda>_ w3.
                    ioBind (if truthy (extends profileSettings) = None
                            then ioBind (if Keybindings \<in> set selected then serializeKeybindings h w3
                                         else Some (Inr (), w3))
                                 (\<lambda>_ w4. if Settings \<in> set selected then serializeUserSettings h w4
                                          else Some (Inr (), w4))
                            else Some (Inr (), w3))
                    (\<lambda>_ w5. saveProfileSyncSettings w5)))))"

section \<open>Restoring a profile\<close>

text \<open>
  \<^verbatim>\<open>shouldRestartApp\<close>. It reads the stored extension list, the commands of the editor,
  the state database and the stored UI state, and returns a boolean or raises the
  error of one of these readings (a TypeError on \<^verbatim>\<open>Object.entries(profile)\<close> when the
  stored UI state is \<^verbatim>\<open>null\<close>): its result type has no state. The comparison
  \<^verbatim>\<open>value !== editor[key]\<close> has the stored value on the left.
\<close>

definition shouldRestartApp :: "world \<Rightarrow> Resource list \<Rightarrow> (error + bool) option" where
  "shouldRestartApp w selected =
     (if \<not> (UIState \<in> set selected \<or> Extensions \<in> set selected) then Some (Inr False)
      else
        case listProfileExtensions w (profile w) of
          None \<Rightarrow> None
        | Some (Inl e) \<Rightarrow> Some (Inl e)
        | Some (Inr extensions) \<Rightarrow>
            if length (disabled extensions) > 0 \<and> \<not> canManageExtensions w then Some (Inr True)
            else
              (let editor = listEditorUIStateProperties w (Some extensions)
               in case listProfileUIStateProperties w (profile w) of
                    None \<Rightarrow> None
                  | Some (Inl e) \<Rightarrow> Some (Inl e)
                  | Some (Inr None) \<Rightarrow> Some (Inl TypeError)
                  | Some (Inr (Some stored)) \<Rightarrow>
                      Some (Inr (list_ex (\<lambda>(key, v).
                                    case map_of editor key of
                                      None \<Rightarrow> True
                                    | Some live \<Rightarrow> \<not> strictEq live v)
                                  stored))))"

subsection \<open>Extensions\<close>

text \<open>
  \<^verbatim>\<open>await a && await b\<close> on two commands of the host, and the assignment
  \<^verbatim>\<open>failures = !(await a) || failures\<close>; the pair is \<^verbatim>\<open>failures\<close> and the state.
\<close>

definition both :: "(world \<Rightarrow> bool \<times> world) \<Rightarrow> (world \<Rightarrow> bool \<times> world) \<Rightarrow> world \<Rightarrow> bool \<times> world" where
  "both a b w = (case a w of (ok, w1) \<Rightarrow> if ok then b w1 else (False, w1))"

definition attempt :: "(world \<Rightarrow> bool \<times> world) \<Rightarrow> bool \<times> world \<Rightarrow> bool \<times> world" where
  "attempt a s = (case a (snd s) of (ok, w1) \<Rightarrow> (\<not> ok \<or> fst s, w1))"

text \<open>The test \<^verbatim>\<open>if(table[id])\<close> on a table of booleans.\<close>

definition flagOf :: "bool obj \<Rightarrow> string \<Rightarrow> bool" where
  "flagOf table i \<longleftrightarrow> map_of table i = Some True"

definition flagAll :: "ExtensionId list \<Rightarrow> bool obj \<Rightarrow> bool obj" where
  "flagAll exts table = foldl (\<lambda>acc e. objSet (id_ext e) True acc) table exts"

text \<open>
  The state of the loops of \<^verbatim>\<open>restoreExtensions\<close>: \<^verbatim>\<open>failures\<close>, the table
  \<^verbatim>\<open>installed\<close>, and the state of the world. The first two loops when the editor has
  the commands to enable and disable an extension:
\<close>

type_synonym restoring = "bool \<times> bool obj \<times> world"

definition disableManaged :: "host \<Rightarrow> bool obj \<Rightarrow> restoring \<Rightarrow> ExtensionId \<Rightarrow> restoring" where
  "disableManaged h currentlyEnabled s e =
     (case s of (failures, installed, w) \<Rightarrow>
        (let i = id_ext e;
             r = (if \<not> flagOf installed i
                  then attempt (both (installExtension h i) (disableExtension h i)) (failures, w)
                  else if flagOf currentlyEnabled i
                  then attempt (disableExtension h i) (failures, w)
                  else (failures, w))
         in (fst r, objSet i False installed, snd r)))"

definition enableManaged :: "host \<Rightarrow> bool obj \<Rightarrow> restoring \<Rightarrow> ExtensionId \<Rightarrow> restoring" where
  "enableManaged h currentlyDisabled s e =
     (case s of (failures, installed, w) \<Rightarrow>
        (let i = id_ext e;
             r = (if \<not> flagOf installed i
                  then attempt (installExtension h i) (failures, w)
                  else if flagOf currentlyDisabled i
                  then attempt (enableExtension h i) (failures, w)
                  else (failures, w))
         in (fst r, objSet i False installed, snd r)))"

text \<open>
  The same two loops when the editor has no such command. In the first one the branch
  \<^verbatim>\<open>else if(currentlyDisabled[id]) installed[id] = false\<close> only clears the flag that the
  next statement clears in every case.
\<close>

definition disableUnmanaged :: "host \<Rightarrow> bool obj \<Rightarrow> restoring \<Rightarrow> ExtensionId \<Rightarrow> restoring" where
  "disableUnmanaged h currentlyDisabled s e =
     (case s of (failures, installed, w) \<Rightarrow>
        (let i = id_ext e;
             r = (if \<not> flagOf installed i
                  then attempt (installExtension h i) (failures, w)
                  else (failures, w))
         in (fst r, objSet i False installed, snd r)))"

definition enableUnmanaged :: "host \<Rightarrow> bool obj \<Rightarrow> restoring \<Rightarrow> ExtensionId \<Rightarrow> restoring" where
  "enableUnmanaged h currentlyDisabled s e =
     (case s of (failures, installed, w) \<Rightarrow>
        (let i = id_ext e;
             r = (if \<not> flagOf installed i
                  then attempt (installExtension h i) (failures, w)
                  else if flagOf currentlyDisabled i
                  then attempt (both (uninstallExtension h i) (installExtension h i)) (failures, w)
                  else (failures, w))
         in (fst r, objSet i False installed, snd r)))"

text \<open>
  \<^verbatim>\<open>for(const id in installed) if(installed[id]) ...\<close>: the keys still flagged are
  uninstalled, in the order of the table. The table does not change in this loop.
\<close>

definition uninstallRest :: "host \<Rightarrow> restoring \<Rightarrow> restoring" where
  "uninstallRest h s =
     (case s of (failures, installed, w) \<Rightarrow>
        (let r = foldl (\<lambda>acc (i, flag). if flag then attempt (uninstallExtension h i) acc else acc)
                   (failures, w) installed
         in (fst r, installed, snd r)))"

text \<open>
  Modelled from the spec: \<^verbatim>\<open>writeStateDB\<close> of \<^verbatim>\<open>utils/write-statedb\<close>, which is not
  among the sources, for the statement \<^verbatim>\<open>INSERT OR REPLACE INTO ItemTable (key, value)
  VALUES ...\<close>: each row replaces the row of its key or is added.
\<close>

definition writeStateDB :: "world \<Rightarrow> sqlvalue obj \<Rightarrow> world" where
  "writeStateDB w rows =
     w\<lparr>stateDB := Some (foldl (\<lambda>acc (key, v). objSet key v acc)
                          (case stateDB w of None \<Rightarrow> [] | Some t \<Rightarrow> t) rows)\<rparr>"

text \<open>The last loop, over \<^verbatim>\<open>uninstall\<close> when the stored list has one.\<close>

definition uninstallListed :: "host \<Rightarrow> ExtensionId list option \<Rightarrow> restoring \<Rightarrow> restoring" where
  "uninstallListed h listed s =
     (case listed of
        None \<Rightarrow> s
      | Some us \<Rightarrow>
          (case s of (failures, installed, w) \<Rightarrow>
             (let r = foldl (\<lambda>acc e. if flagOf installed (id_ext e)
                                      then attempt (uninstallExtension h (id_ext e)) acc else acc)
                        (failures, w) us
              in (fst r, installed, snd r))))"

definition restoreExtensions :: "host \<Rightarrow> world \<Rightarrow> ProfileSyncSettings \<Rightarrow> bool io" where
  "restoreExtensions h w syncSettings =
     (let editor = listEditorExtensions w
                     (case ignoredExtensions syncSettings of None \<Rightarrow> [] | Some l \<Rightarrow> l);
          currentlyDisabled = flagAll (disabled editor) [];
          currentlyEnabled = flagAll (enabled editor) [];
          installed = flagAll (enabled editor) (flagAll (disabled editor) [])
      in case listProfileExtensions w (profile w) of
           None \<Rightarrow> None
         | Some (Inl e) \<Rightarrow> Some (Inl e, w)
         | Some (Inr stored) \<Rightarrow>
             (let s1 =
                (if canManageExtensions w
                 then uninstallRest h
                        (foldl (enableManaged h currentlyDisabled)
                           (foldl (disableManaged h currentlyEnabled) (False, installed, w)
                              (disabled stored))
                           (enabled stored))
                 else
                   (case uninstallRest h
                           (foldl (enableUnmanaged h currentlyDisabled)
                              (foldl (disableUnmanaged h currentlyDisabled) (False, installed, w)
                                 (disabled stored))
                              (enabled stored)) of
                      (failures, table, w1) \<Rightarrow>
                        (failures, table,
                         if length (disabled stored) > 0
                         then writeStateDB w1
                                [(''extensionsIdentifiers/disabled'',
                                  SqlString (jsonStringify h (disabled stored)))]
                         else w1)))
              in case uninstallListed h (uninstall stored) s1 of
                   (failures, table, w2) \<Rightarrow> Some (Inr failures, w2)))"

subsection \<open>Key bindings and settings\<close>

text \<open>
  \<^verbatim>\<open>restoreKeybindings\<close>; \<^verbatim>\<open>fse.outputFile\<close> writes the live \<^verbatim>\<open>keybindings.json\<close>.
  When the sync settings of the ancestor are \<^verbatim>\<open>null\<close>,
  \<^verbatim>\<open>syncSettings.keybindingsPerPlatform\<close> raises a TypeError before anything is
  written.
\<close>

definition restoreKeybindings :: "host \<Rightarrow> world \<Rightarrow> string \<Rightarrow> unit io" where
  "restoreKeybindings h w ancestorProfile =
     (case loadProfileSyncSettings w ancestorProfile of
        None \<Rightarrow> None
      | Some (Inl e) \<Rightarrow> Some (Inl e, w)
      | Some (Inr None) \<Rightarrow> Some (Inl TypeError, w)
      | Some (Inr (Some syncSettings)) \<Rightarrow>
          (let perPlatform = perPlatformOf syncSettings
           in case getProfileKeybindings w ancestorProfile perPlatform of
                None \<Rightarrow> None
              | Some (Inl e) \<Rightarrow> Some (Inl e, w)
              | Some (Inr found) \<Rightarrow>
                  (let data = (case truthy found of
                                 Some text \<Rightarrow> preprocessJSONC h text
                               | None \<Rightarrow> ''[]'')
                   in Some (Inr (), w\<lparr>editorKeybindings := Some data\<rparr>))))"

text \<open>
  \<^verbatim>\<open>restoreUserSettings\<close>. The sync settings are loaded only when the live
  \<^verbatim>\<open>settings.json\<close> exists; \<^verbatim>\<open>syncSettings.ignoredSettings\<close> raises a TypeError when
  they are \<^verbatim>\<open>null\<close>.
\<close>

definition restoreUserSettings :: "host \<Rightarrow> world \<Rightarrow> string \<Rightarrow> unit io" where
  "restoreUserSettings h w ancestorProfile =
     ioBind
       (case editorUserSettings w of
          None \<Rightarrow> Some (Inr '''', w)
        | Some text \<Rightarrow>
            (case loadProfileSyncSettings w ancestorProfile of
               None \<Rightarrow> None
             | Some (Inl e) \<Rightarrow> Some (Inl e, w)
             | Some (Inr None) \<Rightarrow> Some (Inl TypeError, w)
             | Some (Inr (Some syncSettings)) \<Rightarrow>
                 Some (Inr (extractProperties h text
                              (case ignoredSettings syncSettings of None \<Rightarrow> [] | Some l \<Rightarrow> l)), w)))
       (\<lambda>extracted w1.
          (let data = (case truthy (settingsJson w1 ancestorProfile) of
                         Some text \<Rightarrow> preprocessJSONC h text
                       | None \<Rightarrow> ''{}'');
               data2 = (if length extracted > 0 then insertProperties h data extracted else data)
           in Some (Inr (), w1\<lparr>editorUserSettings := Some data2\<rparr>)))"

subsection \<open>Snippets and UI state\<close>

text \<open>
  \<^verbatim>\<open>restoreSnippets\<close>: the live directory is emptied first; then the diff document of
  the profile is read (a document that parses to \<^verbatim>\<open>null\<close> is skipped by \<^verbatim>\<open>if(diff)\<close>,
  and \<^verbatim>\<open>ignore.push(...diff.removed)\<close> raises a TypeError when the document has no
  key \<^verbatim>\<open>removed\<close>), then every file of the effective table that is not ignored is
  copied. The copy of a file below a sub-directory raises \<open>ENOENT\<close>, since the
  emptied directory has no sub-directory.
\<close>

definition copyToEditor :: "world \<Rightarrow> string list \<Rightarrow> unit io \<Rightarrow> string \<times> string \<times> string \<Rightarrow> unit io" where
  "copyToEditor w0 ignore acc entry =
     (case entry of (name, snippetPath) \<Rightarrow>
        ioBind acc (\<lambda>_ w1.
          if name \<in> set ignore then Some (Inr (), w1)
          else if inSubdirectory name then Some (Inl ENOENT, w1)
          else (case map_of (snippetsDir w0 (fst snippetPath)) (snd snippetPath) of
                  None \<Rightarrow> Some (Inl ENOENT, w1)
                | Some data \<Rightarrow>
                    Some (Inr (),
                      w1\<lparr>editorSnippets :=
                           Some (objSet name data
                             (case editorSnippets w1 of None \<Rightarrow> [] | Some fs \<Rightarrow> fs))\<rparr>))))"

definition copySnippets ::
  "world \<Rightarrow> string list \<Rightarrow> (string \<times> string) obj \<Rightarrow> world \<Rightarrow> unit io" where
  "copySnippets w0 ignore snippets w =
     foldl (copyToEditor w0 ignore) (Some (Inr (), w)) snippets"

definition restoreSnippets :: "world \<Rightarrow> unit io" where
  "restoreSnippets w =
     (let w1 = w\<lparr>editorSnippets := Some []\<rparr>
      in ioBind
           (case snippetsDiffYml w (profile w) of
              None \<Rightarrow> Some (Inr [], w1)
            | Some None \<Rightarrow> Some (Inr [], w1)
            | Some (Some diff) \<Rightarrow>
                (case map_of diff ''removed'' of
                   None \<Rightarrow> Some (Inl TypeError, w1)
                 | Some names \<Rightarrow> Some (Inr names, w1)))
           (\<lambda>ignore w2.
              case listProfileSnippetPaths w (profile w) of
                None \<Rightarrow> None
              | Some (Inl e) \<Rightarrow> Some (Inl e, w2)
              | Some (Inr snippets) \<Rightarrow> copySnippets w ignore snippets w2))"

text \<open>
  \<^verbatim>\<open>restoreUIState\<close>: in every string value the placeholder is replaced by the
  extension data path, and the rows are written when there is at least one; what the
  database then holds for a value is what its driver stores for it. (A key with a
  quote in it, which would end the SQL string of the statement, is outside this
  model.)
  \<^verbatim>\<open>Object.entries(profile)\<close> raises a TypeError when the stored UI state is
  \<^verbatim>\<open>null\<close>.
\<close>

definition restoreValue :: "world \<Rightarrow> yamlvalue \<Rightarrow> yamlvalue" where
  "restoreValue w v =
     (case v of
        YString s \<Rightarrow> YString (replaceAll EXTENSION_DATA_PATH (extDataPath w) s)
      | _ \<Rightarrow> v)"

definition restoreUIState :: "host \<Rightarrow> world \<Rightarrow> unit io" where
  "restoreUIState h w =
     (case listProfileUIStateProperties w (profile w) of
        None \<Rightarrow> None
      | Some (Inl e) \<Rightarrow> Some (Inl e, w)
      | Some (Inr None) \<Rightarrow> Some (Inl TypeError, w)
      | Some (Inr (Some stored)) \<Rightarrow>
          (let rows = map (\<lambda>(key, v). (key, bindParameter h (restoreValue w v))) stored
           in if length rows > 0 then Some (Inr (), writeStateDB w rows) else Some (Inr (), w)))"

subsection \<open>The whole restore\<close>

text \<open>
  The loop of \<^verbatim>\<open>restoreProfile\<close> over the resources; the result is \<^verbatim>\<open>reloadWindow\<close>.
\<close>

fun restoreResources ::
  "host \<Rightarrow> ProfileSyncSettings \<Rightarrow> string \<Rightarrow> Resource list \<Rightarrow> bool \<Rightarrow> world \<Rightarrow> bool io" where
  "restoreResources h syncSettings ancestorProfile [] reload w = Some (Inr reload, w)"
| "restoreResources h syncSettings ancestorProfile (r # rs) reload w =
     ioBind
       (case r of
          Extensions \<Rightarrow> restoreExtensions h w syncSettings
        | Keybindings \<Rightarrow> ioBind (restoreKeybindings h w ancestorProfile) (\<lambda>_ w1. Some (Inr reload, w1))
        | Settings \<Rightarrow> ioBind (restoreUserSettings h w ancestorProfile) (\<lambda>_ w1. Some (Inr reload, w1))
        | Snippets \<Rightarrow> ioBind (restoreSnippets w) (\<lambda>_ w1. Some (Inr reload, w1))
        | UIState \<Rightarrow> ioBind (restoreUIState h w) (\<lambda>_ w1. Some (Inr reload, w1)))
       (\<lambda>reload1 w1. restoreResources h syncSettings ancestorProfile rs reload1 w1)"

text \<open>
  The resources that \<^verbatim>\<open>restoreProfile\<close> goes through
  (\<^verbatim>\<open>syncSettings.resources ?? [...]\<close>), and its last statement, once the resources
  are restored: \<^verbatim>\<open>if(restart) restartApp() else if(reloadWindow) ...\<close>.
\<close>

definition selectedResources :: "ProfileSyncSettings \<Rightarrow> Resource list" where
  "selectedResources syncSettings =
     (case resources syncSettings of None \<Rightarrow> defaultResources | Some r \<Rightarrow> r)"

definition finishRestore :: "host \<Rightarrow> bool \<Rightarrow> bool \<Rightarrow> world \<Rightarrow> unit io" where
  "finishRestore h restart reload w =
     (if restart then Some (Inr (), restartApp h w)
      else if reload then Some (Inr (), reloadWindow h w)
      else Some (Inr (), w))"

text \<open>
  \<^verbatim>\<open>restoreProfile\<close>. When the sync settings loaded are \<^verbatim>\<open>null\<close>,
  \<^verbatim>\<open>syncSettings.resources\<close> raises a TypeError, after the ancestor has been
  resolved. \<^verbatim>\<open>if(!result)\<close> holds when the dialog returns \<^verbatim>\<open>undefined\<close> (or an empty
  label).
\<close>

definition restoreProfile :: "host \<Rightarrow> world \<Rightarrow> unit io" where
  "restoreProfile h w =
     (if \<not> initialized w then Some (Inl NotInitialized, w)
      else
        case loadProfileSyncSettings w (profile w) of
          None \<Rightarrow> None
        | Some (Inl e) \<Rightarrow> Some (Inl e, w)
        | Some (Inr loaded) \<Rightarrow>
            (case getAncestorProfile w (profile w) of
               None \<Rightarrow> None
             | Some ancestorProfile \<Rightarrow>
                 (case loaded of
                    None \<Rightarrow> Some (Inl TypeError, w)
                  | Some syncSettings \<Rightarrow>
                      (let selected = selectedResources syncSettings
                       in case shouldRestartApp w selected of
                            None \<Rightarrow> None
                          | Some (Inl e) \<Rightarrow> Some (Inl e, w)
                          | Some (Inr restart) \<Rightarrow>
                              if restart \<and> truthy (showInformationMessage h w) = None
                              then Some (Inr (), w)
                              else
                                ioBind (restoreResources h syncSettings ancestorProfile selected
                                          False w)
                                  (finishRestore h restart)))))"

section \<open>Notions used to state the properties\<close>

text \<open>
  A policy field whose explicitly set value differs from the value that the sync
  settings of the ancestor give it, and a state of the configuration in which some
  field does.
\<close>

definition fieldDiffers :: "'a option \<Rightarrow> 'a option \<Rightarrow> bool" where
  "fieldDiffers inherited global \<longleftrightarrow> global \<noteq> None \<and> global \<noteq> inherited"

definition someFieldDiffers :: "ProfileSyncSettings \<Rightarrow> ProfileSyncSettings \<Rightarrow> bool" where
  "someFieldDiffers ancestors global \<longleftrightarrow>
     fieldDiffers (keybindingsPerPlatform ancestors) (keybindingsPerPlatform global) \<or>
     fieldDiffers (ignoredExtensions ancestors) (ignoredExtensions global) \<or>
     fieldDiffers (ignoredSettings ancestors) (ignoredSettings global) \<or>
     fieldDiffers (resources ancestors) (resources global)"

text \<open>
  Some policy field is explicitly set; and the test against the sync settings loaded
  for the ancestors, which are a document or \<^verbatim>\<open>null\<close>: against \<^verbatim>\<open>null\<close> every field
  that is set differs.
\<close>

definition someFieldSet :: "ProfileSyncSettings \<Rightarrow> bool" where
  "someFieldSet global \<longleftrightarrow>
     keybindingsPerPlatform global \<noteq> None \<or> ignoredExtensions global \<noteq> None \<or>
     ignoredSettings global \<noteq> None \<or> resources global \<noteq> None"

definition differsFromAncestors :: "ProfileSyncSettings option \<Rightarrow> ProfileSyncSettings \<Rightarrow> bool" where
  "differsFromAncestors ancestors global =
     (case ancestors of
        None \<Rightarrow> someFieldSet global
      | Some a \<Rightarrow> someFieldDiffers a global)"

section \<open>Example inputs\<close>

text \<open>
  Concrete lists and diffs. \<open>exampleStored\<close> and \<open>exampleLive\<close> are a stored parent
  list and a live list; \<open>exampleDiff\<close> disables, enables and uninstalls one extension
  each; \<open>exampleDuplicated\<close> names one extension twice.
\<close>

definition mkExt :: "string \<Rightarrow> ExtensionId" where
  "mkExt i = \<lparr>id_ext = i, uuid = NIL_UUID\<rparr>"

definition exampleStored :: ExtensionList where
  "exampleStored = \<lparr>builtin = None, disabled = [mkExt ''d.w''], enabled = [mkExt ''a.x'', mkExt ''c.z''],
     uninstall = None\<rparr>"

definition exampleLive :: ExtensionList where
  "exampleLive = \<lparr>builtin = None, disabled = [mkExt ''c.z''], enabled = [mkExt ''a.x'', mkExt ''b.y''],
     uninstall = None\<rparr>"

definition exampleDiff :: ExtensionList where
  "exampleDiff = \<lparr>builtin = None, disabled = [mkExt ''a.x''], enabled = [mkExt ''b.y''],
     uninstall = Some [mkExt ''c.z'']\<rparr>"

definition exampleDuplicated :: ExtensionList where
  "exampleDuplicated = \<lparr>builtin = None, disabled = [mkExt ''a.x'', mkExt ''a.x''], enabled = [],
     uninstall = None\<rparr>"

definition exampleEnable :: ExtensionList where
  "exampleEnable = \<lparr>builtin = None, disabled = [], enabled = [mkExt ''a.x''], uninstall = None\<rparr>"

text \<open>
  A state with nothing in it, and \<open>exampleTree\<close>: the profile \<^verbatim>\<open>work\<close> extends
  \<^verbatim>\<open>base\<close>, and only \<^verbatim>\<open>base\<close> has a sync-settings document.
\<close>

definition emptyWorld :: world where
  "emptyWorld =
     \<lparr>initialized = True, profile = ''work'', extensionId = ''zokugun.sync-settings'',
      platform = Linux,
      profileYml = Map.empty, syncYml = Map.empty, configYml = Map.empty,
      extensionsYml = Map.empty, extensionsOldYml = Map.empty, keybindingsJson = Map.empty,
      settingsJson = Map.empty, uiStateYml = Map.empty, uiStateDiffYml = Map.empty,
      snippetsDir = (\<lambda>p. []), snippetsDiffYml = Map.empty,
      config = \<lparr>getKeybindingsPerPlatform = None, getIgnoredExtensions = None,
                getIgnoredSettings = None, getResources = None,
                globalValue = \<lparr>keybindingsPerPlatform = None, ignoredExtensions = None,
                                ignoredSettings = None, resources = None\<rparr>\<rparr>,
      editorKeybindings = None, editorUserSettings = None, editorSnippets = None,
      stateDB = None, extDataPath = ''/home/u/.vscode/extensions'', homeDirectory = ''/home/u'',
      commands = [], extensionsAll = [], extensionPackages = [], obsolete = [],
      builtinPackages = []\<rparr>"

definition baseSync :: ProfileSyncSettings where
  "baseSync = \<lparr>keybindingsPerPlatform = Some False, ignoredExtensions = None,
     ignoredSettings = None, resources = None\<rparr>"

definition exampleTree :: world where
  "exampleTree = emptyWorld
     \<lparr>profileYml := [''work'' \<mapsto> Some \<lparr>extends = Some ''base''\<rparr>],
      syncYml := [''base'' \<mapsto> Some baseSync]\<rparr>"

text \<open>
  A host whose commands succeed and change nothing, whose text functions return their
  argument, and whose dialog is dismissed. Binary data comes back from YAML as the
  array of its bytes.
\<close>

definition exampleHost :: host where
  "exampleHost =
     \<lparr>installExtension = (\<lambda>i w. (True, w)), enableExtension = (\<lambda>i w. (True, w)),
      disableExtension = (\<lambda>i w. (True, w)), uninstallExtension = (\<lambda>i w. (True, w)),
      restartApp = (\<lambda>w. w), reloadWindow = (\<lambda>w. w),
      showInformationMessage = (\<lambda>w. None),
      preprocessJSONC = (\<lambda>s. s), extractProperties = (\<lambda>s ks. ''''),
      insertProperties = (\<lambda>s t. s), removeProperties = (\<lambda>s ks. s), comment = (\<lambda>s. s),
      sha1 = (\<lambda>s. ''sha1:'' @ s), jsonStringify = (\<lambda>es. concat (map id_ext es)),
      yamlRoundTrip = (\<lambda>v. case v of
                              SqlNull \<Rightarrow> YNull
                            | SqlNumber n \<Rightarrow> YNumber n
                            | SqlString s \<Rightarrow> YString s
                            | SqlBlob bs \<Rightarrow> YSeq (map (\<lambda>b. YNumber (Finite (real b))) bs)),
      bindParameter = (\<lambda>v. case v of
                              YString s \<Rightarrow> SqlString s
                            | YNumber n \<Rightarrow> SqlNumber n
                            | _ \<Rightarrow> SqlNull)\<rparr>"

text \<open>
  \<open>exampleLegacy\<close>: \<^verbatim>\<open>base\<close> stores the enabled extension \<^verbatim>\<open>b.y\<close>; \<^verbatim>\<open>work\<close> stores, in
  the old shape, \<^verbatim>\<open>disabled: [a.x]\<close>, \<^verbatim>\<open>enabled: []\<close>, \<^verbatim>\<open>uninstall: [b.y]\<close>.
\<close>

definition exampleLegacy :: world where
  "exampleLegacy = exampleTree
     \<lparr>extensionsYml :=
        [''base'' \<mapsto> Some (LegacyDoc [] [''b.y''] None),
         ''work'' \<mapsto> Some (LegacyDoc [''a.x''] [] (Some [''b.y'']))]\<rparr>"

text \<open>
  \<open>exampleSnippets\<close>: \<^verbatim>\<open>base\<close> has the snippet file \<^verbatim>\<open>foo.code-snippets\<close>, and the
  diff of \<^verbatim>\<open>work\<close> is the one that \<^verbatim>\<open>saveSnippetsDiff\<close> writes for the removal of that
  file.
\<close>

definition exampleSnippets :: world where
  "exampleSnippets = saveSnippetsDiff
     (exampleTree\<lparr>snippetsDir := (\<lambda>p. if p = ''base'' then [(''foo.code-snippets'', ''{}'')] else [])\<rparr>)
     [''foo.code-snippets'']"

text \<open>
  \<open>exampleOverride\<close>: \<^verbatim>\<open>work\<close> extends \<^verbatim>\<open>base\<close> and has its own sync-settings
  document; \<^verbatim>\<open>base\<close> has none, and no key bindings file. The live key bindings file
  has a binding.
\<close>

definition exampleOverride :: world where
  "exampleOverride = emptyWorld
     \<lparr>profileYml := [''work'' \<mapsto> Some \<lparr>extends = Some ''base''\<rparr>],
      syncYml := [''work'' \<mapsto> Some baseSync],
      editorKeybindings := Some ''[{\"key\": \"f5\"}]''\<rparr>"

text \<open>
  \<open>exampleSettings\<close>: in \<open>exampleTree\<close>, the user has set
  \<^verbatim>\<open>keybindingsPerPlatform\<close> to \<^verbatim>\<open>false\<close>, the value of \<^verbatim>\<open>base\<close>, and
  \<^verbatim>\<open>ignoredExtensions\<close> to \<^verbatim>\<open>[a.x]\<close>.
\<close>

definition exampleGlobal :: ProfileSyncSettings where
  "exampleGlobal = \<lparr>keybindingsPerPlatform = Some False, ignoredExtensions = Some [''a.x''],
     ignoredSettings = None, resources = None\<rparr>"

definition exampleSettings :: world where
  "exampleSettings = exampleTree
     \<lparr>config := \<lparr>getKeybindingsPerPlatform = Some False, getIgnoredExtensions = Some [''a.x''],
                  getIgnoredSettings = None, getResources = None,
                  globalValue = exampleGlobal\<rparr>\<rparr>"

text \<open>\<open>exampleNullAncestors\<close>: as \<open>exampleSettings\<close>, with an empty document for \<^verbatim>\<open>base\<close>.\<close>

definition exampleNullAncestors :: world where
  "exampleNullAncestors = exampleSettings\<lparr>syncYml := [''base'' \<mapsto> None]\<rparr>"

text \<open>
  \<open>exampleUIState\<close>: \<^verbatim>\<open>base\<close> stores four UI-state keys; in the state database
  \<^verbatim>\<open>workbench.view\<close> has the stored string, \<^verbatim>\<open>workbench.zoom\<close> another number than the
  stored one, \<^verbatim>\<open>workbench.blob\<close> the bytes that the stored array lists, and
  \<^verbatim>\<open>workbench.gone\<close> is missing. \<open>exampleEmptySync\<close>: the sync-settings document
  of \<^verbatim>\<open>base\<close>, the root, is an empty file.
\<close>

definition exampleUIStored :: "yamlvalue obj" where
  "exampleUIStored =
     [(''workbench.view'', YString ''tree''),
      (''workbench.zoom'', YNumber (Finite 3)),
      (''workbench.blob'', YSeq [YNumber (Finite 4), YNumber (Finite 2)]),
      (''workbench.gone'', YBool True)]"

definition exampleUILive :: "sqlvalue obj" where
  "exampleUILive =
     [(''workbench.view'', SqlString ''tree''),
      (''workbench.zoom'', SqlNumber (Finite 2)),
      (''workbench.blob'', SqlBlob [4, 2])]"

definition exampleUIState :: world where
  "exampleUIState = exampleTree\<lparr>uiStateYml := [''base'' \<mapsto> Some exampleUIStored],
                                stateDB := Some exampleUILive\<rparr>"

definition exampleEmptySync :: world where
  "exampleEmptySync = emptyWorld
     \<lparr>profileYml := [''work'' \<mapsto> Some \<lparr>extends = Some ''base''\<rparr>],
      syncYml := [''base'' \<mapsto> None],
      editorKeybindings := Some ''[{\"key\": \"f5\"}]''\<rparr>"

text \<open>
  \<open>exampleStale\<close>: \<^verbatim>\<open>work\<close> has a UI-state diff and a snippets diff from an earlier
  serialization; the live environment now equals what \<^verbatim>\<open>base\<close> stores (one snippet
  file with the same content, no UI state, no extension).
\<close>

definition staleUIStateDiff :: "yamlvalue UIStateDiff" where
  "staleUIStateDiff = \<lparr>modified = [(''workbench.old'', YString ''1'')], removed = []\<rparr>"

definition exampleStale :: world where
  "exampleStale = exampleTree
     \<lparr>uiStateDiffYml := [''work'' \<mapsto> Some staleUIStateDiff],
      snippetsDir := (\<lambda>p. if p = ''base'' then [(''foo.code-snippets'', ''{}'')] else []),
      snippetsDiffYml := [''work'' \<mapsto> Some [(''removed'', [''old.code-snippets''])]],
      editorSnippets := Some [(''foo.code-snippets'', ''{}'')],
      stateDB := Some []\<rparr>"

text \<open>
  \<open>exampleRestart\<close>: \<^verbatim>\<open>base\<close> stores a disabled extension and the editor has no
  command to disable one.
\<close>

definition exampleRestart :: world where
  "exampleRestart = exampleTree
     \<lparr>extensionsYml := [''base'' \<mapsto> Some (StructuredDoc [mkExt ''a.x''] [] None)]\<rparr>"

section \<open>Properties of the extension diff\<close>

lemma splice1_simps [simp]:
  "splice1 0 (x # xs) = xs" "splice1 (Suc k) (x # xs) = x # splice1 k xs"
  by (simp_all add: splice1_def)

lemma someId_iff: "someId i xs \<longleftrightarrow> i \<in> idsOf xs"
  by (auto simp: someId_def idsOf_def list_ex_iff)

lemma findIndex_None_iff: "findIndex p xs = None \<longleftrightarrow> (\<forall>x \<in> set xs. \<not> p x)"
  by (induction xs) (auto split: option.splits)

lemma removeById_filter:
  "distinct (map id_ext xs) \<Longrightarrow> removeById i xs = keepOut {i} xs"
proof (induction xs)
  case Nil
  show ?case by (simp add: removeById_def keepOut_def)
next
  case (Cons x xs)
  show ?case
  proof (cases "id_ext x = i")
    case True
    from Cons.prems have "id_ext x \<notin> id_ext ` set xs" by simp
    then have "\<forall>y \<in> set xs. id_ext y \<noteq> id_ext x" by (metis imageI)
    with True have "\<forall>y \<in> set xs. id_ext y \<noteq> i" by simp
    then have "filter (\<lambda>y. id_ext y \<noteq> i) xs = xs" by (simp add: filter_id_conv)
    with True show ?thesis by (simp add: removeById_def keepOut_def)
  next
    case False
    from Cons have IH: "removeById i xs = keepOut {i} xs" by simp
    with False show ?thesis
      by (simp add: removeById_def keepOut_def split: option.splits)
  qed
qed

lemma idsOf_simps [simp]:
  "idsOf [] = {}" "idsOf (x # xs) = insert (id_ext x) (idsOf xs)"
  "idsOf (xs @ ys) = idsOf xs \<union> idsOf ys"
  by (auto simp: idsOf_def)

lemma idsOf_keepOut [simp]: "idsOf (keepOut S xs) = idsOf xs - S"
  by (auto simp: idsOf_def keepOut_def)

lemma distinct_keepOut: "distinct (map id_ext xs) \<Longrightarrow> distinct (map id_ext (keepOut S xs))"
  by (simp add: keepOut_def distinct_map_filter)

lemma keepOut_keepOut: "keepOut S (keepOut T xs) = keepOut (S \<union> T) xs"
  by (induction xs) (auto simp: keepOut_def)

lemma keepOut_empty: "keepOut {} xs = xs"
  by (simp add: keepOut_def)

lemma keepOut_id: "idsOf xs \<inter> S = {} \<Longrightarrow> keepOut S xs = xs"
  by (induction xs) (auto simp: keepOut_def)

lemma keepOut_append [simp]: "keepOut S (xs @ ys) = keepOut S xs @ keepOut S ys"
  by (simp add: keepOut_def)

lemma idsOf_pushNew [simp]: "idsOf (pushNew acc x) = insert (id_ext x) (idsOf acc)"
  by (auto simp: pushNew_def someId_iff)

lemma idsOf_foldl_pushNew [simp]: "idsOf (foldl pushNew acc xs) = idsOf acc \<union> idsOf xs"
  by (induction xs arbitrary: acc) auto

lemma distinct_pushNew:
  "distinct (map id_ext acc) \<Longrightarrow> distinct (map id_ext (pushNew acc x))"
  by (auto simp: pushNew_def someId_iff idsOf_def)

lemma distinct_foldl_pushNew:
  "distinct (map id_ext acc) \<Longrightarrow> distinct (map id_ext (foldl pushNew acc xs))"
  by (induction xs arbitrary: acc) (auto simp: distinct_pushNew)

lemma keepOut_pushNew:
  "keepOut S (pushNew acc x) = (if id_ext x \<in> S then keepOut S acc else pushNew (keepOut S acc) x)"
  by (auto simp: pushNew_def someId_iff keepOut_def idsOf_def)

lemma keepOut_foldl_pushNew:
  "keepOut S (foldl pushNew acc xs) = foldl pushNew (keepOut S acc) (keepOut S xs)"
proof (induction xs arbitrary: acc)
  case Nil
  show ?case by (simp add: keepOut_def)
next
  case (Cons x xs)
  show ?case
  proof (cases "id_ext x \<in> S")
    case True
    then have "keepOut S (x # xs) = keepOut S xs" by (simp add: keepOut_def)
    with True Cons.IH [of "pushNew acc x"] show ?thesis by (simp add: keepOut_pushNew)
  next
    case False
    then have "keepOut S (x # xs) = x # keepOut S xs" by (simp add: keepOut_def)
    with False Cons.IH [of "pushNew acc x"] show ?thesis by (simp add: keepOut_pushNew)
  qed
qed

lemma foldl_pushNew_present:
  "idsOf xs \<subseteq> idsOf acc \<Longrightarrow> foldl pushNew acc xs = acc"
  by (induction xs arbitrary: acc) (auto simp: pushNew_def someId_iff)

lemma foldl_disableStep:
  "distinct (map id_ext e) \<Longrightarrow>
   foldl disableStep (d, e) xs = (foldl pushNew d xs, keepOut (idsOf xs) e)"
proof (induction xs arbitrary: d e)
  case Nil
  show ?case by (simp add: keepOut_def)
next
  case (Cons x xs)
  have step: "disableStep (d, e) x = (pushNew d x, keepOut {id_ext x} e)"
    using Cons.prems by (simp add: disableStep_def pushNew_def removeById_filter Let_def)
  have "distinct (map id_ext (keepOut {id_ext x} e))"
    using Cons.prems by (rule distinct_keepOut)
  from Cons.IH [OF this, of "pushNew d x"] step show ?case
    by (simp add: keepOut_keepOut Un_commute)
qed

lemma foldl_enableStep:
  "distinct (map id_ext d) \<Longrightarrow>
   foldl enableStep (d, e) xs = (keepOut (idsOf xs) d, foldl pushNew e xs)"
proof (induction xs arbitrary: d e)
  case Nil
  show ?case by (simp add: keepOut_def)
next
  case (Cons x xs)
  have step: "enableStep (d, e) x = (keepOut {id_ext x} d, pushNew e x)"
    using Cons.prems by (simp add: enableStep_def pushNew_def removeById_filter Let_def)
  have "distinct (map id_ext (keepOut {id_ext x} d))"
    using Cons.prems by (rule distinct_keepOut)
  from Cons.IH [OF this, of "pushNew e x"] step show ?case
    by (simp add: keepOut_keepOut Un_commute)
qed

lemma wellFormed_keepOut:
  "wellFormed d e \<Longrightarrow> wellFormed (keepOut S d) (keepOut T e)"
  by (auto simp: wellFormed_def distinct_keepOut)

lemma uninstallStep_wf:
  assumes "wellFormed d e"
  shows "uninstallStep (d, e) x = (keepOut {id_ext x} d, keepOut {id_ext x} e)"
proof (cases "findIndex (\<lambda>item. id_ext item = id_ext x) d")
  case None
  then have "id_ext x \<notin> idsOf d" by (auto simp: findIndex_None_iff idsOf_def)
  then have "keepOut {id_ext x} d = d" by (simp add: keepOut_id)
  with None assms show ?thesis
    by (simp add: uninstallStep_def removeById_filter wellFormed_def)
next
  case (Some k)
  then have "\<exists>y \<in> set d. id_ext y = id_ext x"
    using findIndex_None_iff [of "\<lambda>item. id_ext item = id_ext x" d] by auto
  then have "id_ext x \<in> id_ext ` set d" by (metis imageI)
  then have "id_ext x \<in> idsOf d" by (simp add: idsOf_def)
  with assms have "id_ext x \<notin> idsOf e" by (auto simp: wellFormed_def)
  then have e: "keepOut {id_ext x} e = e" by (simp add: keepOut_id)
  from assms have "removeById (id_ext x) d = keepOut {id_ext x} d"
    by (simp add: removeById_filter wellFormed_def)
  with Some e show ?thesis by (simp add: uninstallStep_def removeById_def)
qed

lemma foldl_uninstallStep:
  "wellFormed d e \<Longrightarrow>
   foldl uninstallStep (d, e) xs = (keepOut (idsOf xs) d, keepOut (idsOf xs) e)"
proof (induction xs arbitrary: d e)
  case Nil
  show ?case by (simp add: keepOut_def)
next
  case (Cons x xs)
  have "wellFormed (keepOut {id_ext x} d) (keepOut {id_ext x} e)"
    using Cons.prems by (rule wellFormed_keepOut)
  from Cons.IH [OF this] uninstallStep_wf [OF Cons.prems, of x] show ?case
    by (simp add: keepOut_keepOut Un_commute)
qed

lemma wellFormed_loops:
  assumes "wellFormed d e"
  shows "wellFormed (keepOut (idsOf en) (foldl pushNew d dis))
           (foldl pushNew (keepOut (idsOf dis) e) en)"
  using assms
  by (auto simp: wellFormed_def distinct_keepOut distinct_foldl_pushNew)

lemma applyExtensionsDiff_closed:
  assumes "wellFormed (disabled base) (enabled base)"
  shows "applyExtensionsDiff base diff =
     \<lparr>builtin = None,
      disabled = keepOut (uninstallIds diff)
                   (keepOut (idsOf (enabled diff)) (foldl pushNew (disabled base) (disabled diff))),
      enabled = keepOut (uninstallIds diff)
                   (foldl pushNew (keepOut (idsOf (disabled diff)) (enabled base)) (enabled diff)),
      uninstall = None\<rparr>"
proof -
  from assms have de: "distinct (map id_ext (enabled base))" by (simp add: wellFormed_def)
  have s1: "foldl disableStep (disabled base, enabled base) (disabled diff) =
      (foldl pushNew (disabled base) (disabled diff), keepOut (idsOf (disabled diff)) (enabled base))"
    using de by (rule foldl_disableStep)
  have dd: "distinct (map id_ext (foldl pushNew (disabled base) (disabled diff)))"
    using assms by (simp add: wellFormed_def distinct_foldl_pushNew)
  have s2: "foldl enableStep
       (foldl pushNew (disabled base) (disabled diff), keepOut (idsOf (disabled diff)) (enabled base))
       (enabled diff) =
      (keepOut (idsOf (enabled diff)) (foldl pushNew (disabled base) (disabled diff)),
       foldl pushNew (keepOut (idsOf (disabled diff)) (enabled base)) (enabled diff))"
    using dd by (rule foldl_enableStep)
  have wf: "wellFormed (keepOut (idsOf (enabled diff)) (foldl pushNew (disabled base) (disabled diff)))
       (foldl pushNew (keepOut (idsOf (disabled diff)) (enabled base)) (enabled diff))"
    using assms by (rule wellFormed_loops)
  show ?thesis
  proof (cases "uninstall diff")
    case None
    then show ?thesis
      by (simp add: applyExtensionsDiff_def Let_def s1 s2 uninstallIds_def keepOut_empty)
  next
    case (Some us)
    then show ?thesis
      by (simp add: applyExtensionsDiff_def Let_def s1 s2 uninstallIds_def foldl_uninstallStep [OF wf])
  qed
qed

lemma applyExtensionsDiff_wellFormed:
  assumes "wellFormed (disabled base) (enabled base)"
  shows "wellFormed (disabled (applyExtensionsDiff base diff)) (enabled (applyExtensionsDiff base diff))"
  by (simp add: applyExtensionsDiff_closed [OF assms] wellFormed_keepOut wellFormed_loops [OF assms])

lemma keepOut_idem: "keepOut S (keepOut S xs) = keepOut S xs"
  by (simp add: keepOut_keepOut)

text \<open>
  Claim C9, as amended. Applying a diff twice is the same as applying it once when the
  base list is well formed (no identifier twice in \<^verbatim>\<open>disabled\<close> or in \<^verbatim>\<open>enabled\<close>,
  none in both) and no identifier is in both \<^verbatim>\<open>disabled\<close> and \<^verbatim>\<open>enabled\<close> of the
  diff. The equality is that of the lists, order included. Nothing is asked of the
  \<^verbatim>\<open>uninstall\<close> list of the diff, nor of repetitions inside its lists.
\<close>

theorem applyExtensionsDiff_idempotent:
  assumes wf: "wellFormed (disabled B) (enabled B)"
    and dj: "idsOf (disabled D) \<inter> idsOf (enabled D) = {}"
  shows "applyExtensionsDiff (applyExtensionsDiff B D) D = applyExtensionsDiff B D"
proof -
  define U where "U = uninstallIds D"
  define Q where "Q = U \<union> idsOf (enabled D)"
  define Rd where "Rd = keepOut Q (foldl pushNew (disabled B) (disabled D))"
  define Re where "Re = keepOut U (foldl pushNew (keepOut (idsOf (disabled D)) (enabled B)) (enabled D))"
  have R: "applyExtensionsDiff B D = \<lparr>builtin = None, disabled = Rd, enabled = Re, uninstall = None\<rparr>"
    by (simp add: applyExtensionsDiff_closed [OF wf] Rd_def Re_def Q_def U_def keepOut_keepOut)
  have wfR: "wellFormed (disabled (applyExtensionsDiff B D)) (enabled (applyExtensionsDiff B D))"
    using wf by (rule applyExtensionsDiff_wellFormed)
  have d1: "keepOut Q Rd = Rd" by (simp add: Rd_def keepOut_idem)
  have "idsOf (keepOut Q (disabled D)) \<subseteq> idsOf Rd" by (auto simp: Rd_def)
  then have d2: "foldl pushNew Rd (keepOut Q (disabled D)) = Rd" by (rule foldl_pushNew_present)
  have dis: "keepOut Q (foldl pushNew Rd (disabled D)) = Rd"
    by (simp add: keepOut_foldl_pushNew d1 d2)
  have "idsOf Re \<inter> idsOf (disabled D) = {}" using dj by (auto simp: Re_def)
  then have e1: "keepOut (idsOf (disabled D)) Re = Re" by (rule keepOut_id)
  have e2: "keepOut U Re = Re" by (simp add: Re_def keepOut_idem)
  have "idsOf (keepOut U (enabled D)) \<subseteq> idsOf Re" by (auto simp: Re_def)
  then have e3: "foldl pushNew Re (keepOut U (enabled D)) = Re" by (rule foldl_pushNew_present)
  have en: "keepOut U (foldl pushNew Re (enabled D)) = Re"
    by (simp add: keepOut_foldl_pushNew e2 e3)
  have "applyExtensionsDiff (applyExtensionsDiff B D) D =
      \<lparr>builtin = None, disabled = keepOut Q (foldl pushNew Rd (disabled D)),
       enabled = keepOut U (foldl pushNew (keepOut (idsOf (disabled D)) Re) (enabled D)),
       uninstall = None\<rparr>"
    using applyExtensionsDiff_closed [OF wfR, of D]
    by (simp add: R Q_def U_def keepOut_keepOut)
  then show ?thesis by (simp add: R dis e1 en)
qed

lemma idsTable_dom:
  "dom (foldl (\<lambda>m ext. m(id_ext ext \<mapsto> ext)) m exts) = dom m \<union> idsOf exts"
  by (induction exts arbitrary: m) (simp_all del: fun_upd_apply)

lemma idsTable_key:
  "foldl (\<lambda>m ext. m(id_ext ext \<mapsto> ext)) m exts i = Some e \<Longrightarrow>
   (\<And>j x. m j = Some x \<Longrightarrow> id_ext x = j) \<Longrightarrow> id_ext e = i"
proof (induction exts arbitrary: m)
  case Nil
  then show ?case by simp
next
  case (Cons x xs)
  show ?case
  proof (rule Cons.IH [of "m(id_ext x \<mapsto> x)"])
    show "foldl (\<lambda>m ext. m(id_ext ext \<mapsto> ext)) (m(id_ext x \<mapsto> x)) xs i = Some e"
      using Cons.prems(1) by (simp del: fun_upd_apply)
  next
    fix j y
    assume "(m(id_ext x \<mapsto> x)) j = Some y"
    then show "id_ext y = j"
      using Cons.prems(2) [of j y] by (cases "j = id_ext x") simp_all
  qed
qed

lemma idsTable_defined:
  assumes "i \<in> idsOf exts"
  shows "\<exists>e. idsTable exts i = Some e \<and> id_ext e = i"
proof -
  have "dom (idsTable exts) = idsOf exts"
    by (simp add: idsTable_def idsTable_dom)
  with assms obtain e where e: "idsTable exts i = Some e" by blast
  then have "id_ext e = i"
    unfolding idsTable_def by (rule idsTable_key) simp
  with e show ?thesis by simp
qed

lemma the_idsTable:
  assumes "set is \<subseteq> idsOf exts"
  shows "map id_ext (map (\<lambda>i. the (idsTable exts i)) is) = is"
proof -
  have "\<forall>i \<in> set is. id_ext (the (idsTable exts i)) = i"
    using assms idsTable_defined [of _ exts] by fastforce
  then show ?thesis by (simp add: map_idI)
qed

lemma extensionsDiff_ids:
  "map id_ext (disabled (extensionsDiff editor stored)) =
      arrayDiff (map id_ext (disabled editor)) (map id_ext (disabled stored))"
  "map id_ext (enabled (extensionsDiff editor stored)) =
      arrayDiff (map id_ext (enabled editor)) (map id_ext (enabled stored))"
  "uninstallIds (extensionsDiff editor stored) =
      (idsOf (disabled stored) \<union> idsOf (enabled stored)) -
      (idsOf (disabled editor) \<union> idsOf (enabled editor))"
proof -
  let ?all = "disabled stored @ enabled stored @ disabled editor @ enabled editor"
  have 1: "set (arrayDiff (map id_ext (disabled editor)) (map id_ext (disabled stored))) \<subseteq> idsOf ?all"
    by (auto simp: arrayDiff_def idsOf_def)
  have 2: "set (arrayDiff (map id_ext (enabled editor)) (map id_ext (enabled stored))) \<subseteq> idsOf ?all"
    by (auto simp: arrayDiff_def idsOf_def)
  have 3: "set (arrayDiff (map id_ext (disabled stored @ enabled stored))
                 (map id_ext (disabled editor @ enabled editor))) \<subseteq> idsOf ?all"
    by (auto simp: arrayDiff_def idsOf_def)
  show "map id_ext (disabled (extensionsDiff editor stored)) =
      arrayDiff (map id_ext (disabled editor)) (map id_ext (disabled stored))"
    using the_idsTable [OF 1] by (simp add: extensionsDiff_def Let_def)
  show "map id_ext (enabled (extensionsDiff editor stored)) =
      arrayDiff (map id_ext (enabled editor)) (map id_ext (enabled stored))"
    using the_idsTable [OF 2] by (simp add: extensionsDiff_def Let_def)
  let ?un = "map (\<lambda>i. the (idsTable ?all i))
          (arrayDiff (map id_ext (disabled stored @ enabled stored))
                 (map id_ext (disabled editor @ enabled editor)))"
  have u1: "uninstall (extensionsDiff editor stored) = (if length ?un > 0 then Some ?un else None)"
    by (simp add: extensionsDiff_def Let_def)
  have u2: "uninstallIds (extensionsDiff editor stored) = idsOf ?un"
    unfolding uninstallIds_def u1 by (cases ?un) simp_all
  have u3: "idsOf ?un = set (arrayDiff (map id_ext (disabled stored @ enabled stored))
                 (map id_ext (disabled editor @ enabled editor)))"
    using the_idsTable [OF 3] by (simp only: idsOf_def)
  have u4: "set (arrayDiff (map id_ext (disabled stored @ enabled stored))
                 (map id_ext (disabled editor @ enabled editor))) =
      (idsOf (disabled stored) \<union> idsOf (enabled stored)) -
      (idsOf (disabled editor) \<union> idsOf (enabled editor))"
    by (auto simp: arrayDiff_def idsOf_def)
  show "uninstallIds (extensionsDiff editor stored) =
      (idsOf (disabled stored) \<union> idsOf (enabled stored)) -
      (idsOf (disabled editor) \<union> idsOf (enabled editor))"
    by (simp only: u2 u3 u4)
qed

text \<open>
  Claim C1. For a stored list \<open>L1\<close> and a live list \<open>L2\<close>, both well formed,
  applying to \<open>L1\<close> the diff that \<^verbatim>\<open>serializeExtensions\<close> computes from \<open>L2\<close>
  against \<open>L1\<close> gives a list with the disabled and the enabled identifiers of
  \<open>L2\<close>, and that list is well formed again.
\<close>

theorem applyExtensionsDiff_extensionsDiff:
  assumes wf1: "wellFormed (disabled L1) (enabled L1)"
    and wf2: "wellFormed (disabled L2) (enabled L2)"
  shows "idsOf (disabled (applyExtensionsDiff L1 (extensionsDiff L2 L1))) = idsOf (disabled L2) \<and>
         idsOf (enabled (applyExtensionsDiff L1 (extensionsDiff L2 L1))) = idsOf (enabled L2) \<and>
         wellFormed (disabled (applyExtensionsDiff L1 (extensionsDiff L2 L1)))
                    (enabled (applyExtensionsDiff L1 (extensionsDiff L2 L1)))"
proof -
  let ?D = "extensionsDiff L2 L1"
  have dd: "idsOf (disabled ?D) = idsOf (disabled L2) - idsOf (disabled L1)"
    using extensionsDiff_ids(1) [of L2 L1] by (auto simp: idsOf_def arrayDiff_def)
  have de: "idsOf (enabled ?D) = idsOf (enabled L2) - idsOf (enabled L1)"
    using extensionsDiff_ids(2) [of L2 L1] by (auto simp: idsOf_def arrayDiff_def)
  note du = extensionsDiff_ids(3) [of L2 L1]
  from wf1 have j1: "idsOf (disabled L1) \<inter> idsOf (enabled L1) = {}" by (simp add: wellFormed_def)
  from wf2 have j2: "idsOf (disabled L2) \<inter> idsOf (enabled L2) = {}" by (simp add: wellFormed_def)
  have a: "idsOf (disabled (applyExtensionsDiff L1 ?D)) = idsOf (disabled L2)"
  proof -
    have "idsOf (disabled (applyExtensionsDiff L1 ?D)) =
       ((idsOf (disabled L1) \<union> idsOf (disabled ?D)) - idsOf (enabled ?D)) - uninstallIds ?D"
      by (simp add: applyExtensionsDiff_closed [OF wf1])
    also have "\<dots> = idsOf (disabled L2)"
      unfolding dd de du using j1 j2 by blast
    finally show ?thesis .
  qed
  have b: "idsOf (enabled (applyExtensionsDiff L1 ?D)) = idsOf (enabled L2)"
  proof -
    have "idsOf (enabled (applyExtensionsDiff L1 ?D)) =
       ((idsOf (enabled L1) - idsOf (disabled ?D)) \<union> idsOf (enabled ?D)) - uninstallIds ?D"
      by (simp add: applyExtensionsDiff_closed [OF wf1])
    also have "\<dots> = idsOf (enabled L2)"
      unfolding dd de du using j1 j2 by blast
    finally show ?thesis .
  qed
  from a b applyExtensionsDiff_wellFormed [OF wf1, of ?D] show ?thesis by simp
qed

theorem applyExtensionsDiff_extensionsDiff_witness:
  "wellFormed (disabled exampleStored) (enabled exampleStored) \<and>
   wellFormed (disabled exampleLive) (enabled exampleLive) \<and>
   idsOf (disabled (applyExtensionsDiff exampleStored (extensionsDiff exampleLive exampleStored)))
     = {''c.z''} \<and>
   idsOf (enabled (applyExtensionsDiff exampleStored (extensionsDiff exampleLive exampleStored)))
     = {''a.x'', ''b.y''}"
proof -
  have h1: "wellFormed (disabled exampleStored) (enabled exampleStored)"
    by (simp add: wellFormed_def exampleStored_def mkExt_def)
  have h2: "wellFormed (disabled exampleLive) (enabled exampleLive)"
    by (simp add: wellFormed_def exampleLive_def mkExt_def)
  have l: "idsOf (disabled exampleLive) = {''c.z''}" "idsOf (enabled exampleLive) = {''a.x'', ''b.y''}"
    by (simp_all add: exampleLive_def mkExt_def)
  from applyExtensionsDiff_extensionsDiff [OF h1 h2] h1 h2 l show ?thesis by simp
qed

text \<open>
  Claim C9 as stated, for every base list and every diff, fails: a base list with the
  same identifier twice in \<^verbatim>\<open>disabled\<close> (two version directories of one extension
  give such a live list) loses one entry at each application of a diff that enables
  the identifier.
\<close>

theorem applyExtensionsDiff_twice_counterexample:
  "applyExtensionsDiff (applyExtensionsDiff exampleDuplicated exampleEnable) exampleEnable
     \<noteq> applyExtensionsDiff exampleDuplicated exampleEnable"
  by (simp add: applyExtensionsDiff_def enableStep_def removeById_def someId_def splice1_def
        Let_def exampleDuplicated_def exampleEnable_def mkExt_def)

theorem applyExtensionsDiff_idempotent_witness:
  "wellFormed (disabled exampleStored) (enabled exampleStored) \<and>
   idsOf (disabled exampleDiff) \<inter> idsOf (enabled exampleDiff) = {} \<and>
   applyExtensionsDiff (applyExtensionsDiff exampleStored exampleDiff) exampleDiff
     = applyExtensionsDiff exampleStored exampleDiff"
proof -
  have h1: "wellFormed (disabled exampleStored) (enabled exampleStored)"
    by (simp add: wellFormed_def exampleStored_def mkExt_def)
  have h2: "idsOf (disabled exampleDiff) \<inter> idsOf (enabled exampleDiff) = {}"
    by (simp add: exampleDiff_def mkExt_def)
  from applyExtensionsDiff_idempotent [OF h1 h2] h1 h2 show ?thesis by simp
qed

section \<open>Properties of the sync-settings loader\<close>

lemma ancestorChain_cases:
  assumes "ancestorChain w p = Some ps"
  shows "(extendsOf w p = None \<and> ps = [p]) \<or>
         (\<exists>q qs. extendsOf w p = Some q \<and> ancestorChain w q = Some qs \<and> ps = p # qs)"
proof (cases "extendsOf w p")
  case None
  with assms show ?thesis by (simp add: ancestorChain.simps [of w p])
next
  case (Some q)
  with assms show ?thesis
    by (auto simp: ancestorChain.simps [of w p] bind_eq_Some_conv)
qed

lemma loadProfileSyncSettings_own:
  "hasSyncSettings w p \<Longrightarrow>
   loadProfileSyncSettings w p = map_option Inr (ownSyncSettings w p)"
  by (auto simp: loadProfileSyncSettings.simps [of w p] hasSyncSettings_def ownSyncSettings_def
      split: option.splits)

lemma loadProfileSyncSettings_parent:
  "\<not> hasSyncSettings w p \<Longrightarrow>
   loadProfileSyncSettings w p =
     (case extendsOf w p of
        Some q \<Rightarrow> loadProfileSyncSettings w q
      | None \<Rightarrow> Some (Inl SyncSettingsNotFound))"
  by (simp add: loadProfileSyncSettings.simps [of w p] hasSyncSettings_def)

lemma loadProfileSyncSettings_chain:
  "ancestorChain w p = Some ps \<Longrightarrow>
   loadProfileSyncSettings w p =
     (case find (hasSyncSettings w) ps of
        None \<Rightarrow> Some (Inl SyncSettingsNotFound)
      | Some q \<Rightarrow> map_option Inr (ownSyncSettings w q))"
proof (induction ps arbitrary: p)
  case Nil
  then show ?case using ancestorChain_cases [of w p "[]"] by simp
next
  case (Cons a ps)
  from ancestorChain_cases [OF Cons.prems]
  consider (root) "extendsOf w p = None" "a = p" "ps = []"
    | (child) q where "extendsOf w p = Some q" "ancestorChain w q = Some ps" "a = p"
    by auto
  then show ?case
  proof cases
    case root
    then show ?thesis
      by (cases "hasSyncSettings w p")
         (simp_all add: loadProfileSyncSettings_own loadProfileSyncSettings_parent)
  next
    case child
    show ?thesis
    proof (cases "hasSyncSettings w p")
      case True
      with child show ?thesis by (simp add: loadProfileSyncSettings_own)
    next
      case False
      with child Cons.IH [of q] show ?thesis by (simp add: loadProfileSyncSettings_parent)
    qed
  qed
qed

lemma find_hasSyncSettings:
  "find (hasSyncSettings w) ps = Some q \<Longrightarrow> \<exists>s. ownSyncSettings w q = Some s"
proof -
  assume "find (hasSyncSettings w) ps = Some q"
  then have "hasSyncSettings w q" by (auto simp: find_Some_iff)
  then show ?thesis by (auto simp: hasSyncSettings_def ownSyncSettings_def split: option.splits)
qed

text \<open>
  Claim C8. Let the chain of ancestors of a profile be \<open>ps\<close> (the profile first, the
  root last; the \<^verbatim>\<open>extends\<close> links reach a root). \<^verbatim>\<open>loadProfileSyncSettings\<close> raises
  \<^verbatim>\<open>'sync settings file of profile can not be found'\<close> exactly when no profile of the
  chain has a document at \<^verbatim>\<open>.sync.yml\<close> or at \<^verbatim>\<open>config.yml\<close>; when some profile has
  one, it returns the document of the first such profile of the chain, as
  \<^verbatim>\<open>yaml.parse\<close> gives it.
\<close>

theorem loadProfileSyncSettings_error_iff:
  assumes "ancestorChain w p = Some ps"
  shows "(loadProfileSyncSettings w p = Some (Inl SyncSettingsNotFound)
            \<longleftrightarrow> \<not> list_ex (hasSyncSettings w) ps) \<and>
         (\<forall>q. find (hasSyncSettings w) ps = Some q \<longrightarrow>
            (\<exists>s. ownSyncSettings w q = Some s \<and> loadProfileSyncSettings w p = Some (Inr s)))"
proof (cases "find (hasSyncSettings w) ps")
  case None
  then have "\<not> list_ex (hasSyncSettings w) ps"
    by (simp add: find_None_iff list_ex_iff)
  with None loadProfileSyncSettings_chain [OF assms] show ?thesis by simp
next
  case (Some q)
  then have "\<exists>i < length ps. hasSyncSettings w (ps ! i)"
    by (auto simp: find_Some_iff)
  then have ex: "list_ex (hasSyncSettings w) ps"
    unfolding list_ex_iff by (metis nth_mem)
  from find_hasSyncSettings [OF Some] obtain s where s: "ownSyncSettings w q = Some s" ..
  with Some loadProfileSyncSettings_chain [OF assms]
  have "loadProfileSyncSettings w p = Some (Inr s)" by simp
  with Some ex s show ?thesis by simp
qed

theorem loadProfileSyncSettings_error_iff_witness:
  "ancestorChain exampleTree ''work'' = Some [''work'', ''base''] \<and>
   loadProfileSyncSettings exampleTree ''work'' = Some (Inr (Some baseSync)) \<and>
   ancestorChain emptyWorld ''work'' = Some [''work''] \<and>
   loadProfileSyncSettings emptyWorld ''work'' = Some (Inl SyncSettingsNotFound)"
proof -
  have c1: "ancestorChain exampleTree ''work'' = Some [''work'', ''base'']"
    by (simp add: ancestorChain.simps extendsOf_def loadProfileSettings_def truthy_def
          exampleTree_def emptyWorld_def)
  have c2: "ancestorChain emptyWorld ''work'' = Some [''work'']"
    by (simp add: ancestorChain.simps extendsOf_def loadProfileSettings_def truthy_def
          emptyWorld_def)
  have f1: "find (hasSyncSettings exampleTree) [''work'', ''base''] = Some ''base''"
    by (simp add: hasSyncSettings_def exampleTree_def emptyWorld_def)
  have o1: "ownSyncSettings exampleTree ''base'' = Some (Some baseSync)"
    by (simp add: ownSyncSettings_def exampleTree_def emptyWorld_def)
  have n2: "\<not> list_ex (hasSyncSettings emptyWorld) [''work'']"
    by (simp add: hasSyncSettings_def emptyWorld_def)
  from loadProfileSyncSettings_error_iff [OF c1] f1 o1
  have r1: "loadProfileSyncSettings exampleTree ''work'' = Some (Inr (Some baseSync))" by simp
  from loadProfileSyncSettings_error_iff [OF c2] n2
  have r2: "loadProfileSyncSettings emptyWorld ''work'' = Some (Inl SyncSettingsNotFound)" by simp
  from c1 c2 r1 r2 show ?thesis by simp
qed

section \<open>Reading the stored documents\<close>

lemmas exampleTree_simps =
  extendsOf_def loadProfileSettings_def truthy_def exampleTree_def emptyWorld_def

text \<open>
  The document that \<^verbatim>\<open>serializeExtensions\<close> writes is read back as the list it was
  written from, \<^verbatim>\<open>builtin\<close> apart.
\<close>

lemma decodeDiff_encodeExtensions:
  "decodeDiff (encodeExtensions l) =
     \<lparr>builtin = None, disabled = disabled l, enabled = enabled l, uninstall = uninstall l\<rparr>"
  by (simp add: encodeExtensions_def)

lemma decodeDiff_extensionsDiff:
  "decodeDiff (encodeExtensions (extensionsDiff editor stored)) = extensionsDiff editor stored"
  by (simp add: decodeDiff_encodeExtensions extensionsDiff_def Let_def)

text \<open>
  Claim C5 asks that a stored \<^verbatim>\<open>uninstall\<close> list of names be decoded into records with
  those names. The code maps \<^verbatim>\<open>raw.disabled\<close> instead: whenever the stored
  \<^verbatim>\<open>uninstall\<close> list is a non-empty list of names, the decoded list has the names of
  the stored \<^verbatim>\<open>disabled\<close> list. In \<open>exampleLegacy\<close> the profile \<^verbatim>\<open>work\<close> asks to
  disable \<^verbatim>\<open>a.x\<close> and to uninstall \<^verbatim>\<open>b.y\<close>, which \<^verbatim>\<open>base\<close> enables; its effective
  list keeps \<^verbatim>\<open>b.y\<close> enabled and has lost \<^verbatim>\<open>a.x\<close>.
\<close>

theorem listProfileExtensions_legacy_uninstall:
  "uninstall (decodeDiff (LegacyDoc dis en (Some (n # ns)))) = Some (fromNames dis) \<and>
   listProfileExtensions exampleLegacy ''work'' =
     Some (Inr \<lparr>builtin = None, disabled = [], enabled = [mkExt ''b.y''], uninstall = None\<rparr>)"
proof -
  have eb: "extendsOf exampleLegacy ''base'' = None"
    and ew: "extendsOf exampleLegacy ''work'' = Some ''base''"
    by (simp_all add: exampleLegacy_def exampleTree_simps)
  have rb: "readExtensions exampleLegacy ''base'' = Some (Some (LegacyDoc [] [''b.y''] None))"
    and rw: "readExtensions exampleLegacy ''work'' =
               Some (Some (LegacyDoc [''a.x''] [] (Some [''b.y''])))"
    by (simp_all add: readExtensions_def exampleLegacy_def exampleTree_simps)
  have base: "listProfileExtensions exampleLegacy ''base'' =
      Some (Inr \<lparr>builtin = None, disabled = [], enabled = [mkExt ''b.y''], uninstall = None\<rparr>)"
    by (simp add: listProfileExtensions.simps [of _ "''base''"] eb rb fromNames_def mkExt_def)
  have "listProfileExtensions exampleLegacy ''work'' =
      Some (Inr \<lparr>builtin = None, disabled = [], enabled = [mkExt ''b.y''], uninstall = None\<rparr>)"
    by (simp add: listProfileExtensions.simps [of _ "''work''"] ew rw base fromNames_def mkExt_def
        applyExtensionsDiff_def disableStep_def enableStep_def uninstallStep_def removeById_def
        someId_def splice1_def Let_def)
  then show ?thesis by simp
qed

text \<open>
  Claim C2 asks that \<^verbatim>\<open>listProfileSnippetHashes\<close> return, for a profile that extends
  another and has a diff document, the inherited index without the names of the
  document. The method reads the names under the key \<^verbatim>\<open>remove\<close>, and
  \<^verbatim>\<open>saveSnippetsDiff\<close> writes them under \<^verbatim>\<open>removed\<close>: on a document written by
  \<^verbatim>\<open>saveSnippetsDiff\<close> it raises a TypeError as soon as the index of the parent has
  been computed.
\<close>

theorem listProfileSnippetHashes_saved_diff:
  assumes "extendsOf w p = Some q"
    and "listProfileSnippetHashes h w q = Some (Inr inherited)"
    and "snippetsDiffYml w p = snippetsDiffYml (saveSnippetsDiff v names) (profile v)"
  shows "listProfileSnippetHashes h w p = Some (Inl TypeError)"
proof -
  have "snippetsDiffYml w p = Some (Some [(''removed'', names)])"
    using assms(3) by (simp add: saveSnippetsDiff_def)
  then have "removeListed (\<lambda>v. v \<noteq> []) ''remove'' (snippetsDiffYml w p) inherited = Inl TypeError"
    by (simp add: removeListed_def)
  with assms(1,2) show ?thesis
    by (simp add: listProfileSnippetHashes.simps [of h w p])
qed

theorem listProfileSnippetHashes_saved_diff_witness:
  "extendsOf exampleSnippets ''work'' = Some ''base'' \<and>
   listProfileSnippetHashes exampleHost exampleSnippets ''base'' =
     Some (Inr [(''foo.code-snippets'', ''sha1:{}'')]) \<and>
   snippetsDiffYml exampleSnippets ''work'' =
     Some (Some [(''removed'', [''foo.code-snippets''])]) \<and>
   listProfileSnippetHashes exampleHost exampleSnippets ''work'' = Some (Inl TypeError)"
proof -
  have eb: "extendsOf exampleSnippets ''base'' = None"
    and ew: "extendsOf exampleSnippets ''work'' = Some ''base''"
    by (simp_all add: exampleSnippets_def saveSnippetsDiff_def exampleTree_simps)
  have base: "listProfileSnippetHashes exampleHost exampleSnippets ''base'' =
      Some (Inr [(''foo.code-snippets'', ''sha1:{}'')])"
    by (simp add: listProfileSnippetHashes.simps [of _ _ "''base''"] eb hashFiles_def
          exampleHost_def exampleSnippets_def saveSnippetsDiff_def exampleTree_simps)
  have d: "snippetsDiffYml exampleSnippets ''work'' =
      snippetsDiffYml (saveSnippetsDiff exampleSnippets [''foo.code-snippets''])
        (profile exampleSnippets)"
    by (simp add: exampleSnippets_def saveSnippetsDiff_def exampleTree_simps)
  have d2: "snippetsDiffYml exampleSnippets ''work'' =
      Some (Some [(''removed'', [''foo.code-snippets''])])"
    by (simp add: exampleSnippets_def saveSnippetsDiff_def exampleTree_simps)
  from listProfileSnippetHashes_saved_diff [OF ew base d] ew base d2 show ?thesis by simp
qed

section \<open>Restoring the key bindings\<close>

lemma getAncestorProfile_root:
  "getAncestorProfile w p = Some a \<Longrightarrow> extendsOf w a = None"
proof (rule getAncestorProfile.raw_induct [where P = "\<lambda>w p a. extendsOf w a = None"])
  fix f w p a
  assume IH: "\<And>w p a. f w p = Some a \<Longrightarrow> extendsOf w a = None"
    and step: "(case extendsOf w p of None \<Rightarrow> Some p | Some q \<Rightarrow> f w q) = Some a"
  show "extendsOf w a = None"
  proof (cases "extendsOf w p")
    case None
    with step show ?thesis by simp
  next
    case (Some q)
    with step have "f w q = Some a" by simp
    then show ?thesis by (rule IH)
  qed
qed

lemma loadProfileSyncSettings_root:
  assumes "extendsOf w a = None"
  shows "loadProfileSyncSettings w a =
     (case ownSyncSettings w a of
        None \<Rightarrow> Some (Inl SyncSettingsNotFound)
      | Some s \<Rightarrow> Some (Inr s))"
  using assms
  by (simp add: loadProfileSyncSettings.simps [of w a] ownSyncSettings_def split: option.splits)

text \<open>
  Claim C10, as amended. Let \<open>a\<close> be the root ancestor of a profile. When \<open>a\<close> has a
  sync-settings document that is not \<^verbatim>\<open>null\<close>, \<^verbatim>\<open>getProfileKeybindings\<close> returns
  \<^verbatim>\<open>undefined\<close> for a value of \<^verbatim>\<open>keybindingsPerPlatform\<close> other than the one of that
  document, and \<^verbatim>\<open>restoreKeybindings\<close>, which resolves with the value of that document,
  writes \<^verbatim>\<open>[]\<close> to the live key bindings file when \<open>a\<close> stores no key bindings text
  (no file, or an empty one) at the path for the platform. When the sync-settings
  document of \<open>a\<close> parses to \<^verbatim>\<open>null\<close> (an empty file), \<^verbatim>\<open>getProfileKeybindings\<close> and
  \<^verbatim>\<open>restoreKeybindings\<close> raise a TypeError, and when \<open>a\<close> has no sync-settings
  document, \<^verbatim>\<open>restoreKeybindings\<close> raises the error of \<^verbatim>\<open>loadProfileSyncSettings\<close>; in
  both cases the state, the live key bindings file included, is as before.
\<close>

theorem restoreKeybindings_root:
  assumes "getAncestorProfile w p = Some a"
  shows "(\<forall>s. ownSyncSettings w a = Some (Some s) \<longrightarrow>
            (\<forall>b. b \<noteq> perPlatformOf s \<longrightarrow> getProfileKeybindings w a b = Some (Inr None)) \<and>
            (truthy (keybindingsJson w (getProfileKeybindingsPath w a (perPlatformOf s))) = None \<longrightarrow>
               restoreKeybindings h w a = Some (Inr (), w\<lparr>editorKeybindings := Some ''[]''\<rparr>))) \<and>
         (ownSyncSettings w a = Some None \<longrightarrow>
            (\<forall>b. getProfileKeybindings w a b = Some (Inl TypeError)) \<and>
            restoreKeybindings h w a = Some (Inl TypeError, w)) \<and>
         (ownSyncSettings w a = None \<longrightarrow>
            restoreKeybindings h w a = Some (Inl SyncSettingsNotFound, w))"
proof -
  from assms have root: "extendsOf w a = None" by (rule getAncestorProfile_root)
  note load = loadProfileSyncSettings_root [OF root]
  have none: "ownSyncSettings w a = None \<longrightarrow>
      restoreKeybindings h w a = Some (Inl SyncSettingsNotFound, w)"
    by (simp add: restoreKeybindings_def load)
  have null: "ownSyncSettings w a = Some None \<longrightarrow>
      (\<forall>b. getProfileKeybindings w a b = Some (Inl TypeError)) \<and>
      restoreKeybindings h w a = Some (Inl TypeError, w)"
    by (simp add: restoreKeybindings_def getProfileKeybindings_def load)
  have some: "\<And>s. ownSyncSettings w a = Some (Some s) \<Longrightarrow>
      (\<forall>b. b \<noteq> perPlatformOf s \<longrightarrow> getProfileKeybindings w a b = Some (Inr None)) \<and>
      (truthy (keybindingsJson w (getProfileKeybindingsPath w a (perPlatformOf s))) = None \<longrightarrow>
         restoreKeybindings h w a = Some (Inr (), w\<lparr>editorKeybindings := Some ''[]''\<rparr>))"
  proof -
    fix s assume s: "ownSyncSettings w a = Some (Some s)"
    have g: "\<And>b. getProfileKeybindings w a b =
        (if perPlatformOf s \<noteq> b then Some (Inr None)
         else Some (Inr (keybindingsJson w (getProfileKeybindingsPath w a b))))"
      by (simp add: getProfileKeybindings_def load s Let_def)
    have "truthy (keybindingsJson w (getProfileKeybindingsPath w a (perPlatformOf s))) = None \<longrightarrow>
         restoreKeybindings h w a = Some (Inr (), w\<lparr>editorKeybindings := Some ''[]''\<rparr>)"
      by (simp add: restoreKeybindings_def load s g Let_def)
    moreover have "\<forall>b. b \<noteq> perPlatformOf s \<longrightarrow> getProfileKeybindings w a b = Some (Inr None)"
      by (auto simp: g)
    ultimately show "(\<forall>b. b \<noteq> perPlatformOf s \<longrightarrow> getProfileKeybindings w a b = Some (Inr None)) \<and>
      (truthy (keybindingsJson w (getProfileKeybindingsPath w a (perPlatformOf s))) = None \<longrightarrow>
         restoreKeybindings h w a = Some (Inr (), w\<lparr>editorKeybindings := Some ''[]''\<rparr>))"
      by simp
  qed
  from none null some show ?thesis by blast
qed

theorem restoreKeybindings_root_witness:
  "getAncestorProfile exampleTree ''work'' = Some ''base'' \<and>
   ownSyncSettings exampleTree ''base'' = Some (Some baseSync) \<and>
   getProfileKeybindings exampleTree ''base'' True = Some (Inr None) \<and>
   restoreKeybindings exampleHost exampleTree ''base'' =
     Some (Inr (), exampleTree\<lparr>editorKeybindings := Some ''[]''\<rparr>) \<and>
   getAncestorProfile exampleEmptySync ''work'' = Some ''base'' \<and>
   ownSyncSettings exampleEmptySync ''base'' = Some None \<and>
   restoreKeybindings exampleHost exampleEmptySync ''base'' =
     Some (Inl TypeError, exampleEmptySync) \<and>
   editorKeybindings exampleEmptySync = Some ''[{\"key\": \"f5\"}]'' \<and>
   getAncestorProfile exampleOverride ''work'' = Some ''base'' \<and>
   ownSyncSettings exampleOverride ''base'' = None \<and>
   restoreKeybindings exampleHost exampleOverride ''base'' =
     Some (Inl SyncSettingsNotFound, exampleOverride)"
proof -
  have a1: "getAncestorProfile exampleTree ''work'' = Some ''base''"
    by (simp add: getAncestorProfile.simps exampleTree_simps)
  have o1: "ownSyncSettings exampleTree ''base'' = Some (Some baseSync)"
    by (simp add: ownSyncSettings_def exampleTree_def emptyWorld_def)
  have p1: "perPlatformOf baseSync = False"
    by (simp add: perPlatformOf_def baseSync_def)
  have k1: "truthy (keybindingsJson exampleTree
              (getProfileKeybindingsPath exampleTree ''base'' (perPlatformOf baseSync))) = None"
    by (simp add: p1 getProfileKeybindingsPath_def truthy_def exampleTree_def emptyWorld_def)
  have a2: "getAncestorProfile exampleOverride ''work'' = Some ''base''"
    by (simp add: getAncestorProfile.simps extendsOf_def loadProfileSettings_def truthy_def
          exampleOverride_def emptyWorld_def)
  have o2: "ownSyncSettings exampleOverride ''base'' = None"
    by (simp add: ownSyncSettings_def exampleOverride_def emptyWorld_def)
  have a3: "getAncestorProfile exampleEmptySync ''work'' = Some ''base''"
    by (simp add: getAncestorProfile.simps extendsOf_def loadProfileSettings_def truthy_def
          exampleEmptySync_def emptyWorld_def)
  have o3: "ownSyncSettings exampleEmptySync ''base'' = Some None"
    by (simp add: ownSyncSettings_def exampleEmptySync_def emptyWorld_def)
  have e3: "editorKeybindings exampleEmptySync = Some ''[{\"key\": \"f5\"}]''"
    by (simp add: exampleEmptySync_def emptyWorld_def)
  note root1 = restoreKeybindings_root [OF a1, of exampleHost]
  from root1 o1 have "\<forall>b. b \<noteq> perPlatformOf baseSync \<longrightarrow>
      getProfileKeybindings exampleTree ''base'' b = Some (Inr None)"
    by blast
  from this [rule_format, of True]
  have r1: "getProfileKeybindings exampleTree ''base'' True = Some (Inr None)"
    by (simp add: p1)
  from root1 o1 k1
  have r2: "restoreKeybindings exampleHost exampleTree ''base'' =
       Some (Inr (), exampleTree\<lparr>editorKeybindings := Some ''[]''\<rparr>)"
    by blast
  from restoreKeybindings_root [OF a2, of exampleHost] o2
  have r3: "restoreKeybindings exampleHost exampleOverride ''base'' =
       Some (Inl SyncSettingsNotFound, exampleOverride)"
    by simp
  from restoreKeybindings_root [OF a3, of exampleHost] o3
  have r4: "restoreKeybindings exampleHost exampleEmptySync ''base'' =
       Some (Inl TypeError, exampleEmptySync)"
    by simp
  from a1 o1 r1 r2 a2 o2 r3 a3 o3 r4 e3 show ?thesis by simp
qed

text \<open>
  Claim C10 as stated fails: in \<open>exampleOverride\<close> the root ancestor \<^verbatim>\<open>base\<close> of
  \<^verbatim>\<open>work\<close> stores no key bindings file, the sync settings of \<^verbatim>\<open>work\<close> load (from its
  own document), and \<^verbatim>\<open>restoreKeybindings\<close> raises an error and leaves the live key
  bindings file as it was.
\<close>

theorem restoreKeybindings_raises_counterexample:
  "getAncestorProfile exampleOverride ''work'' = Some ''base'' \<and>
   loadProfileSyncSettings exampleOverride ''work'' = Some (Inr (Some baseSync)) \<and>
   keybindingsJson exampleOverride (getProfileKeybindingsPath exampleOverride ''base'' True) = None \<and>
   keybindingsJson exampleOverride (getProfileKeybindingsPath exampleOverride ''base'' False) = None \<and>
   restoreKeybindings exampleHost exampleOverride ''base'' =
     Some (Inl SyncSettingsNotFound, exampleOverride) \<and>
   editorKeybindings exampleOverride = Some ''[{\"key\": \"f5\"}]''"
proof -
  have e: "extendsOf exampleOverride ''base'' = None"
    by (simp add: extendsOf_def loadProfileSettings_def truthy_def exampleOverride_def
          emptyWorld_def)
  have a: "getAncestorProfile exampleOverride ''work'' = Some ''base''"
    by (simp add: getAncestorProfile.simps extendsOf_def loadProfileSettings_def truthy_def
          exampleOverride_def emptyWorld_def)
  have l: "loadProfileSyncSettings exampleOverride ''work'' = Some (Inr (Some baseSync))"
    by (simp add: loadProfileSyncSettings.simps [of _ "''work''"] exampleOverride_def
          emptyWorld_def)
  have k: "keybindingsJson exampleOverride (getProfileKeybindingsPath exampleOverride ''base'' True) = None"
    "keybindingsJson exampleOverride (getProfileKeybindingsPath exampleOverride ''base'' False) = None"
    by (simp_all add: getProfileKeybindingsPath_def exampleOverride_def emptyWorld_def)
  have o: "ownSyncSettings exampleOverride ''base'' = None"
    by (simp add: ownSyncSettings_def exampleOverride_def emptyWorld_def)
  have lb: "loadProfileSyncSettings exampleOverride ''base'' = Some (Inl SyncSettingsNotFound)"
    by (simp add: loadProfileSyncSettings_root [OF e] o)
  have r: "restoreKeybindings exampleHost exampleOverride ''base'' =
     Some (Inl SyncSettingsNotFound, exampleOverride)"
    by (simp add: restoreKeybindings_def lb)
  have ed: "editorKeybindings exampleOverride = Some ''[{\"key\": \"f5\"}]''"
    by (simp add: exampleOverride_def emptyWorld_def)
  from a l k r ed show ?thesis by simp
qed

section \<open>Saving the sync settings\<close>

lemma countDiffering_pos:
  "countDiffering (Some inherited) global > 0 \<longleftrightarrow> fieldDiffers inherited global"
  by (auto simp: countDiffering_def fieldDiffers_def split: option.splits)

lemma countDiffering_null:
  "countDiffering None global > 0 \<longleftrightarrow> global \<noteq> None"
  by (auto simp: countDiffering_def split: option.splits)

lemma differingLength_pos:
  "differingLength ancestors global > 0 \<longleftrightarrow> differsFromAncestors ancestors global"
  by (cases ancestors)
     (simp_all add: differingLength_def differsFromAncestors_def someFieldDiffers_def
        someFieldSet_def countDiffering_pos countDiffering_null)

text \<open>
  Claim C7, as amended. For a profile that extends another, whose ancestors' sync
  settings load, \<^verbatim>\<open>saveProfileSyncSettings\<close> removes the document at the older path;
  when some explicitly set policy field differs from the value of the ancestors it
  writes the override document, which holds every explicitly set field (the
  \<^verbatim>\<open>globalValue\<close> of each property, the ones equal to the ancestors' value included);
  when no field differs the override document is removed. Against sync settings of
  the ancestors that are \<^verbatim>\<open>null\<close> (an empty document), every field that is set
  differs.
\<close>

theorem saveProfileSyncSettings_override:
  assumes "extendsOf w (profile w) = Some q"
    and "loadProfileSyncSettings w q = Some (Inr ancestors)"
  shows "\<exists>w'. saveProfileSyncSettings w = Some (Inr (), w') \<and>
           configYml w' (profile w) = None \<and>
           syncYml w' (profile w) =
             (if differsFromAncestors ancestors (globalValue (config w))
              then Some (Some (globalValue (config w))) else None)"
proof -
  have "saveProfileSyncSettings w = Some (Inr (), writeSyncSettings w ancestors)"
    using assms by (simp add: saveProfileSyncSettings_def)
  moreover have "configYml (writeSyncSettings w ancestors) (profile w) = None"
    by (simp add: writeSyncSettings_def Let_def)
  moreover have "syncYml (writeSyncSettings w ancestors) (profile w) =
             (if differsFromAncestors ancestors (globalValue (config w))
              then Some (Some (globalValue (config w))) else None)"
    by (simp add: writeSyncSettings_def Let_def differingLength_pos)
  ultimately show ?thesis by blast
qed

lemma exampleSettings_facts:
  "extendsOf exampleSettings ''work'' = Some ''base''"
  "loadProfileSyncSettings exampleSettings ''base'' = Some (Inr (Some baseSync))"
  "profile exampleSettings = ''work''"
  "globalValue (config exampleSettings) = exampleGlobal"
  by (simp_all add: loadProfileSyncSettings.simps [of _ "''base''"] exampleSettings_def
        exampleTree_simps)

lemma exampleNullAncestors_facts:
  "extendsOf exampleNullAncestors ''work'' = Some ''base''"
  "loadProfileSyncSettings exampleNullAncestors ''base'' = Some (Inr None)"
  "profile exampleNullAncestors = ''work''"
  "globalValue (config exampleNullAncestors) = exampleGlobal"
  by (simp_all add: loadProfileSyncSettings.simps [of _ "''base''"] exampleNullAncestors_def
        exampleSettings_def exampleTree_simps)

theorem saveProfileSyncSettings_override_witness:
  "extendsOf exampleSettings (profile exampleSettings) = Some ''base'' \<and>
   loadProfileSyncSettings exampleSettings ''base'' = Some (Inr (Some baseSync)) \<and>
   (\<exists>w'. saveProfileSyncSettings exampleSettings = Some (Inr (), w') \<and>
      configYml w' ''work'' = None \<and> syncYml w' ''work'' = Some (Some exampleGlobal)) \<and>
   extendsOf exampleNullAncestors (profile exampleNullAncestors) = Some ''base'' \<and>
   loadProfileSyncSettings exampleNullAncestors ''base'' = Some (Inr None) \<and>
   (\<exists>w'. saveProfileSyncSettings exampleNullAncestors = Some (Inr (), w') \<and>
      configYml w' ''work'' = None \<and> syncYml w' ''work'' = Some (Some exampleGlobal))"
proof -
  have d: "differsFromAncestors (Some baseSync) exampleGlobal"
    by (simp add: differsFromAncestors_def someFieldDiffers_def fieldDiffers_def baseSync_def
          exampleGlobal_def)
  have d2: "differsFromAncestors None exampleGlobal"
    by (simp add: differsFromAncestors_def someFieldSet_def exampleGlobal_def)
  have e: "extendsOf exampleSettings (profile exampleSettings) = Some ''base''"
    by (simp add: exampleSettings_facts)
  have e2: "extendsOf exampleNullAncestors (profile exampleNullAncestors) = Some ''base''"
    by (simp add: exampleNullAncestors_facts)
  from saveProfileSyncSettings_override [OF e exampleSettings_facts(2)] d
  have r1: "\<exists>w'. saveProfileSyncSettings exampleSettings = Some (Inr (), w') \<and>
      configYml w' ''work'' = None \<and> syncYml w' ''work'' = Some (Some exampleGlobal)"
    by (simp add: exampleSettings_facts)
  from saveProfileSyncSettings_override [OF e2 exampleNullAncestors_facts(2)] d2
  have r2: "\<exists>w'. saveProfileSyncSettings exampleNullAncestors = Some (Inr (), w') \<and>
      configYml w' ''work'' = None \<and> syncYml w' ''work'' = Some (Some exampleGlobal)"
    by (simp add: exampleNullAncestors_facts)
  from e e2 r1 r2 exampleSettings_facts(2) exampleNullAncestors_facts(2) show ?thesis by simp
qed

text \<open>
  Claim C7 as stated fails: in \<open>exampleSettings\<close> the field
  \<^verbatim>\<open>keybindingsPerPlatform\<close> is set to the value that the ancestor \<^verbatim>\<open>base\<close> gives it
  and \<^verbatim>\<open>ignoredExtensions\<close> to another; the document written for \<^verbatim>\<open>work\<close> holds both
  fields.
\<close>

theorem saveProfileSyncSettings_equal_field_counterexample:
  "loadProfileSyncSettings exampleSettings ''base'' = Some (Inr (Some baseSync)) \<and>
   keybindingsPerPlatform baseSync = Some False \<and>
   keybindingsPerPlatform (globalValue (config exampleSettings)) = Some False \<and>
   saveProfileSyncSettings exampleSettings =
     Some (Inr (), exampleSettings
       \<lparr>syncYml := (syncYml exampleSettings)
          (''work'' \<mapsto> Some \<lparr>keybindingsPerPlatform = Some False,
                               ignoredExtensions = Some [''a.x''],
                               ignoredSettings = None, resources = None\<rparr>),
        configYml := (configYml exampleSettings)(''work'' := None)\<rparr>)"
proof -
  have k: "keybindingsPerPlatform baseSync = Some False" by (simp add: baseSync_def)
  have g: "keybindingsPerPlatform (globalValue (config exampleSettings)) = Some False"
    by (simp add: exampleSettings_facts exampleGlobal_def)
  have l: "differingLength (Some baseSync) exampleGlobal > 0"
    by (simp add: differingLength_def countDiffering_def baseSync_def exampleGlobal_def)
  have "saveProfileSyncSettings exampleSettings =
      Some (Inr (), writeSyncSettings exampleSettings (Some baseSync))"
    by (simp add: saveProfileSyncSettings_def exampleSettings_facts)
  also have "writeSyncSettings exampleSettings (Some baseSync) =
      exampleSettings
       \<lparr>syncYml := (syncYml exampleSettings)
          (''work'' \<mapsto> Some \<lparr>keybindingsPerPlatform = Some False,
                               ignoredExtensions = Some [''a.x''],
                               ignoredSettings = None, resources = None\<rparr>),
        configYml := (configYml exampleSettings)(''work'' := None)\<rparr>"
    using l by (simp add: writeSyncSettings_def Let_def exampleSettings_facts exampleGlobal_def)
  finally show ?thesis using exampleSettings_facts(2) k g by simp
qed

section \<open>The UI-state diff\<close>

lemma map_of_objSet: "map_of (objSet k v ob) = (map_of ob)(k \<mapsto> v)"
  by (induction ob) (auto simp: fun_eq_iff)

lemma keys_objSet: "fst ` set (objSet k v ob) = insert k (fst ` set ob)"
  by (induction ob) auto

lemma distinct_objSet: "distinct (map fst ob) \<Longrightarrow> distinct (map fst (objSet k v ob))"
  by (induction ob) (auto simp: keys_objSet)

lemma distinct_captureRow:
  "distinct (map fst properties) \<Longrightarrow> distinct (map fst (captureRow w properties row))"
  by (auto simp: captureRow_def Let_def distinct_objSet split: sqlvalue.splits)

lemma distinct_foldl_captureRow:
  "distinct (map fst properties) \<Longrightarrow> distinct (map fst (foldl (captureRow w) properties rows))"
  by (induction rows arbitrary: properties) (simp_all add: distinct_captureRow)

lemma distinct_listEditorUIStateProperties:
  "distinct (map fst (listEditorUIStateProperties w given))"
  by (simp add: listEditorUIStateProperties_def Let_def distinct_foldl_captureRow
      split: option.splits)

lemma map_of_modified_fold:
  "distinct (map fst editor) \<Longrightarrow>
   map_of (foldl (\<lambda>acc (key, v).
                    if strictNeq v (map_of stored key) then objSet key v acc else acc)
             acc editor) k =
     (case map_of editor k of
        None \<Rightarrow> map_of acc k
      | Some v \<Rightarrow> if strictNeq v (map_of stored k) then Some v else map_of acc k)"
proof (induction editor arbitrary: acc)
  case Nil
  show ?case by simp
next
  case (Cons entry editor)
  obtain key val where entry: "entry = (key, val)" by (cases entry)
  from Cons.prems entry have d: "distinct (map fst editor)" and fresh: "key \<notin> fst ` set editor"
    by simp_all
  from fresh have none: "map_of editor key = None"
    by (simp add: map_of_eq_None_iff)
  show ?case
  proof (cases "k = key")
    case True
    with none Cons.IH [OF d] entry show ?thesis
      by (simp add: map_of_objSet split: option.splits)
  next
    case False
    with Cons.IH [OF d] entry show ?thesis
      by (simp add: map_of_objSet split: option.splits)
  qed
qed

lemma map_of_modifiedOf:
  "distinct (map fst editor) \<Longrightarrow>
   map_of (modifiedOf editor stored) k =
     (case map_of editor k of
        None \<Rightarrow> None
      | Some v \<Rightarrow> if strictNeq v (map_of stored k) then Some v else None)"
  by (simp add: modifiedOf_def map_of_modified_fold split: option.splits)

text \<open>
  A value of the state database and a value of a document are strictly equal exactly
  when they are deep-equal: the values that \<^verbatim>\<open>===\<close> compares by identity are objects,
  and an object of the database (binary data) is deep-equal to no object of a
  document.
\<close>

lemma strictEq_deepEq: "strictEq v u = deepEq v u"
  by (cases v; cases u) simp_all

lemma strictNeq_deepNeq: "strictNeq v u = deepNeq v u"
  by (cases u) (simp_all add: strictEq_deepEq)

text \<open>
  Claim C4. For a profile that extends another and whose parent has effective
  properties \<open>stored\<close>, \<^verbatim>\<open>serializeUIState\<close> saves the diff of the live snapshot
  \<open>editor\<close> against \<open>stored\<close>, and a key is in \<^verbatim>\<open>modified\<close>, with its live value,
  exactly when it is in the live snapshot and its value differs from the stored one
  by deep value equality (a key that \<open>stored\<close> does not have differs); a live key
  whose value is deep-equal to the stored one is not in \<^verbatim>\<open>modified\<close>. The code
  compares with \<^verbatim>\<open>!==\<close>, which is the same test between a value of the state
  database and a value of a parsed document.
\<close>

theorem serializeUIState_modified:
  assumes "truthy (extends profileSettings) = Some q"
    and "listProfileUIStateProperties w q = Some (Inr (Some stored))"
  shows "serializeUIState h w profileSettings given =
           Some (Inr (), saveUIStateDiff h w
             (uiStateDiff (listEditorUIStateProperties w given) stored)) \<and>
         (\<forall>k. map_of (modified (uiStateDiff (listEditorUIStateProperties w given) stored)) k =
            (case map_of (listEditorUIStateProperties w given) k of
               None \<Rightarrow> None
             | Some v \<Rightarrow> if deepNeq v (map_of stored k) then Some v else None))"
proof -
  have a: "serializeUIState h w profileSettings given =
      Some (Inr (), saveUIStateDiff h w (uiStateDiff (listEditorUIStateProperties w given) stored))"
    using assms by (simp add: serializeUIState_def Let_def)
  have b: "\<forall>k. map_of (modified (uiStateDiff (listEditorUIStateProperties w given) stored)) k =
      (case map_of (listEditorUIStateProperties w given) k of
         None \<Rightarrow> None
       | Some v \<Rightarrow> if deepNeq v (map_of stored k) then Some v else None)"
    by (simp add: uiStateDiff_def map_of_modifiedOf distinct_listEditorUIStateProperties
        strictNeq_deepNeq split: option.splits)
  from a b show ?thesis by simp
qed

lemma exampleUIState_facts:
  "truthy (extends \<lparr>extends = Some ''base''\<rparr>) = Some ''base''"
  "listProfileUIStateProperties exampleUIState ''base'' = Some (Inr (Some exampleUIStored))"
  "listEditorUIStateProperties exampleUIState None = exampleUILive"
  "profile exampleUIState = ''work''"
proof -
  show "truthy (extends \<lparr>extends = Some ''base''\<rparr>) = Some ''base''"
    by (simp add: truthy_def)
  have e: "extendsOf exampleUIState ''base'' = None"
    by (simp add: exampleUIState_def exampleTree_simps)
  show "listProfileUIStateProperties exampleUIState ''base'' = Some (Inr (Some exampleUIStored))"
    by (simp add: listProfileUIStateProperties.simps [of _ "''base''"] e)
       (simp add: exampleUIState_def exampleTree_def emptyWorld_def)
  have l: "listEditorExtensions exampleUIState [] =
      \<lparr>builtin = None, disabled = [], enabled = [], uninstall = None\<rparr>"
    by (simp add: listEditorExtensions_def builtinDisabled_def installedDisabled_def
          runningEnabled_def exampleUIState_def exampleTree_def emptyWorld_def)
  have r: "readStateDB exampleUIState [] = Some exampleUILive"
    by (simp add: readStateDB_def exampleUIState_def exampleTree_def emptyWorld_def)
       (simp add: exampleUILive_def likeWorkbench_def lowerASCII_def)
  have p: "extDataPath exampleUIState = ''/home/u/.vscode/extensions''"
    "homeDirectory exampleUIState = ''/home/u''"
    by (simp_all add: exampleUIState_def exampleTree_def emptyWorld_def)
  show "listEditorUIStateProperties exampleUIState None = exampleUILive"
    by (simp add: listEditorUIStateProperties_def l r captureRow_def exampleUILive_def p
          replaceAll_def Let_def)
  show "profile exampleUIState = ''work''"
    by (simp add: exampleUIState_def exampleTree_def emptyWorld_def)
qed

theorem serializeUIState_modified_witness:
  "truthy (extends \<lparr>extends = Some ''base''\<rparr>) = Some ''base'' \<and>
   listProfileUIStateProperties exampleUIState ''base'' = Some (Inr (Some exampleUIStored)) \<and>
   listEditorUIStateProperties exampleUIState None = exampleUILive \<and>
   map_of (modified (uiStateDiff exampleUILive exampleUIStored)) ''workbench.view'' = None \<and>
   map_of (modified (uiStateDiff exampleUILive exampleUIStored)) ''workbench.zoom''
     = Some (SqlNumber (Finite 2)) \<and>
   map_of (modified (uiStateDiff exampleUILive exampleUIStored)) ''workbench.blob''
     = Some (SqlBlob [4, 2]) \<and>
   map_of (modified (uiStateDiff exampleUILive exampleUIStored)) ''workbench.gone'' = None"
proof -
  note t = serializeUIState_modified [OF exampleUIState_facts(1,2), of exampleHost None]
  from t have m: "\<And>k. map_of (modified (uiStateDiff exampleUILive exampleUIStored)) k =
      (case map_of exampleUILive k of
         None \<Rightarrow> None
       | Some v \<Rightarrow> if deepNeq v (map_of exampleUIStored k) then Some v else None)"
    by (simp add: exampleUIState_facts(3))
  have "map_of (modified (uiStateDiff exampleUILive exampleUIStored)) ''workbench.view'' = None"
    by (simp add: m) (simp add: exampleUILive_def exampleUIStored_def)
  moreover
  have "map_of (modified (uiStateDiff exampleUILive exampleUIStored)) ''workbench.zoom''
      = Some (SqlNumber (Finite 2))"
    by (simp add: m) (simp add: exampleUILive_def exampleUIStored_def)
  moreover
  have "map_of (modified (uiStateDiff exampleUILive exampleUIStored)) ''workbench.blob''
      = Some (SqlBlob [4, 2])"
    by (simp add: m) (simp add: exampleUILive_def exampleUIStored_def)
  moreover
  have "map_of (modified (uiStateDiff exampleUILive exampleUIStored)) ''workbench.gone'' = None"
    by (simp add: m) (simp add: exampleUILive_def exampleUIStored_def)
  ultimately show ?thesis using exampleUIState_facts(1,2,3) by simp
qed

section \<open>Diff documents left on disk\<close>

text \<open>
  Claim C6 asks that after \<^verbatim>\<open>serializeProfile\<close> no diff document exist whose computed
  diff is empty. \<^verbatim>\<open>saveUIStateDiff\<close> and \<^verbatim>\<open>serializeSnippets\<close> write a non-empty diff
  and do nothing for an empty one: they never remove a document. In \<open>exampleStale\<close>
  both computed diffs are empty (the live UI state and the live snippets are those of
  \<^verbatim>\<open>base\<close>), \<^verbatim>\<open>serializeProfile\<close> returns normally, and the two documents of the
  earlier serialization are still there.
\<close>

theorem serializeProfile_keeps_stale_diffs:
  "uiStateDiff (listEditorUIStateProperties exampleStale None) [] =
     \<lparr>modified = [], removed = []\<rparr> \<and>
   (\<exists>w'. serializeProfile exampleHost exampleStale = Some (Inr (), w') \<and>
      uiStateDiffYml w' ''work'' = Some (Some staleUIStateDiff) \<and>
      snippetsDiffYml w' ''work'' = Some (Some [(''removed'', [''old.code-snippets''])]))"
proof -
  let ?ps = "\<lparr>extends = Some ''base''\<rparr>"
  let ?none = "\<lparr>builtin = None, disabled = [], enabled = [], uninstall = None\<rparr>"
  define w1 where "w1 = exampleStale
     \<lparr>extensionsYml := (extensionsYml exampleStale)(''work'' \<mapsto> Some (StructuredDoc [] [] None)),
      extensionsOldYml := (extensionsOldYml exampleStale)(''work'' := None)\<rparr>"
  define w2 where "w2 = w1\<lparr>snippetsDir := (snippetsDir w1)(''work'' := [])\<rparr>"
  have init: "initialized exampleStale" "getResources (config exampleStale) = None"
    "loadProfileSettings exampleStale ''work'' = ?ps" "profile exampleStale = ''work''"
    "truthy (Some ''base'') = Some ''base''"
    "getIgnoredExtensions (config exampleStale) = None"
    by (simp_all add: exampleStale_def exampleTree_simps)
  have editor: "\<And>w. extensionsAll w = [] \<Longrightarrow> extensionPackages w = [] \<Longrightarrow>
      builtinPackages w = [] \<Longrightarrow> listEditorExtensions w [] = ?none"
    by (simp add: listEditorExtensions_def builtinDisabled_def installedDisabled_def
          runningEnabled_def)
  have e0: "listEditorExtensions exampleStale [] = ?none"
    by (rule editor) (simp_all add: exampleStale_def exampleTree_def emptyWorld_def)
  have x0: "extendsOf exampleStale ''base'' = None"
    by (simp add: exampleStale_def exampleTree_simps)
  have l0: "listProfileExtensions exampleStale ''base'' = Some (Inr ?none)"
    by (simp add: listProfileExtensions.simps [of _ "''base''"] x0)
       (simp add: readExtensions_def exampleStale_def exampleTree_def emptyWorld_def)
  have d0: "extensionsDiff ?none ?none = ?none"
    by (simp add: extensionsDiff_def arrayDiff_def Let_def)
  have s1: "serializeExtensions exampleStale ?ps = Some (Inr ?none, w1)"
    by (simp add: serializeExtensions_def Let_def init e0 l0 d0 encodeExtensions_def w1_def)
  have x1: "extendsOf w1 ''base'' = None" "extendsOf w1 ''work'' = Some ''base''"
    "profile w1 = ''work''"
    by (simp_all add: w1_def exampleStale_def exampleTree_simps)
  have f1: "editorSnippets w1 = Some [(''foo.code-snippets'', ''{}'')]"
    "snippetsDir w1 ''base'' = [(''foo.code-snippets'', ''{}'')]"
    by (simp_all add: w1_def exampleStale_def exampleTree_def emptyWorld_def)
  have sha: "\<And>s. sha1 exampleHost s = ''sha1:'' @ s"
    by (simp add: exampleHost_def)
  have h1: "listProfileSnippetHashes exampleHost w1 ''base'' =
      Some (Inr [(''foo.code-snippets'', ''sha1:{}'')])"
    by (simp add: listProfileSnippetHashes.simps [of _ _ "''base''"] x1 f1 hashFiles_def sha)
  have s2: "serializeSnippets exampleHost w1 ?ps = Some (Inr (), w2)"
    by (simp add: serializeSnippets_def Let_def init h1 f1 listEditorSnippets_def objKeys_def
          snippetStep_def storeSnippets_def x1 w2_def sha)
  have x2: "extendsOf w2 ''base'' = None" "extendsOf w2 ''work'' = Some ''base''"
    "profile w2 = ''work''"
    by (simp_all add: w2_def w1_def exampleStale_def exampleTree_simps)
  have u2: "listProfileUIStateProperties w2 ''base'' = Some (Inr (Some []))"
    by (simp add: listProfileUIStateProperties.simps [of _ "''base''"] x2)
       (simp add: w2_def w1_def exampleStale_def exampleTree_def emptyWorld_def)
  have r2: "\<And>keys. readStateDB w2 keys = Some []" "\<And>keys. readStateDB exampleStale keys = Some []"
    by (simp_all add: readStateDB_def w2_def w1_def exampleStale_def exampleTree_def
          emptyWorld_def)
  have ed2: "listEditorUIStateProperties w2 (Some ?none) = []"
    "listEditorUIStateProperties exampleStale None = []"
    by (simp_all add: listEditorUIStateProperties_def Let_def r2)
  have diff: "uiStateDiff [] [] = \<lparr>modified = [], removed = []\<rparr>"
    by (simp add: uiStateDiff_def modifiedOf_def arrayDiff_def objKeys_def)
  have s3: "serializeUIState exampleHost w2 ?ps (Some ?none) = Some (Inr (), w2)"
    by (simp add: serializeUIState_def Let_def init u2 ed2 diff saveUIStateDiff_def isEmpty_def)
  have l2: "loadProfileSyncSettings w2 ''base'' = Some (Inr (Some baseSync))"
    by (simp add: loadProfileSyncSettings.simps [of _ "''base''"])
       (simp add: w2_def w1_def exampleStale_def exampleTree_def emptyWorld_def)
  have s4: "saveProfileSyncSettings w2 = Some (Inr (), writeSyncSettings w2 (Some baseSync))"
    by (simp add: saveProfileSyncSettings_def x2 l2)
  have run: "serializeProfile exampleHost exampleStale =
      Some (Inr (), writeSyncSettings w2 (Some baseSync))"
    by (simp add: serializeProfile_def Let_def init defaultResources_def ioBind_def s1 s2 s3 s4)
  have kept: "uiStateDiffYml (writeSyncSettings w2 (Some baseSync)) ''work'' =
       Some (Some staleUIStateDiff)"
    "snippetsDiffYml (writeSyncSettings w2 (Some baseSync)) ''work'' =
       Some (Some [(''removed'', [''old.code-snippets''])])"
    by (simp_all add: writeSyncSettings_def Let_def w2_def w1_def exampleStale_def
          exampleTree_def emptyWorld_def)
  from run kept ed2(2) diff show ?thesis by simp
qed

section \<open>The confirmation before a restore\<close>

text \<open>
  Claim C3. \<^verbatim>\<open>shouldRestartApp\<close> returns a boolean computed from the state, or raises
  an error of its readings; it cannot change the state. In \<^verbatim>\<open>restoreProfile\<close> it is
  evaluated on the state that \<^verbatim>\<open>restoreProfile\<close> received: every way of ending before
  it (the repository is not initialized, the sync settings are not found, or they
  are \<^verbatim>\<open>null\<close>) gives back that state with the error; when it does not return,
  neither does \<^verbatim>\<open>restoreProfile\<close>; when it raises, \<^verbatim>\<open>restoreProfile\<close> gives back that
  state with its error; when it returns \<^verbatim>\<open>true\<close> and the dialog is dismissed,
  \<^verbatim>\<open>restoreProfile\<close> returns normally with that state; in the remaining cases the
  resources are restored starting from that same state, and the editor is then
  restarted or reloaded.
\<close>

theorem restoreProfile_gate:
  "(\<not> initialized w \<longrightarrow> restoreProfile h w = Some (Inl NotInitialized, w)) \<and>
   (initialized w \<longrightarrow>
      (\<forall>e. loadProfileSyncSettings w (profile w) = Some (Inl e) \<longrightarrow>
           restoreProfile h w = Some (Inl e, w)) \<and>
      (\<forall>a. loadProfileSyncSettings w (profile w) = Some (Inr None) \<and>
           getAncestorProfile w (profile w) = Some a \<longrightarrow>
           restoreProfile h w = Some (Inl TypeError, w)) \<and>
      (\<forall>syncSettings a.
           loadProfileSyncSettings w (profile w) = Some (Inr (Some syncSettings)) \<and>
           getAncestorProfile w (profile w) = Some a \<longrightarrow>
           (shouldRestartApp w (selectedResources syncSettings) = None \<longrightarrow>
              restoreProfile h w = None) \<and>
           (\<forall>e. shouldRestartApp w (selectedResources syncSettings) = Some (Inl e) \<longrightarrow>
              restoreProfile h w = Some (Inl e, w)) \<and>
           (shouldRestartApp w (selectedResources syncSettings) = Some (Inr True) \<and>
            truthy (showInformationMessage h w) = None \<longrightarrow>
              restoreProfile h w = Some (Inr (), w)) \<and>
           (\<forall>restart.
              shouldRestartApp w (selectedResources syncSettings) = Some (Inr restart) \<and>
              \<not> (restart \<and> truthy (showInformationMessage h w) = None) \<longrightarrow>
              restoreProfile h w =
                ioBind (restoreResources h syncSettings a (selectedResources syncSettings) False w)
                  (finishRestore h restart))))"
proof -
  have early: "\<not> initialized w \<longrightarrow> restoreProfile h w = Some (Inl NotInitialized, w)"
    by (simp add: restoreProfile_def)
  have failed: "initialized w \<longrightarrow>
      (\<forall>e. loadProfileSyncSettings w (profile w) = Some (Inl e) \<longrightarrow>
           restoreProfile h w = Some (Inl e, w))"
    by (simp add: restoreProfile_def)
  have null: "initialized w \<longrightarrow>
      (\<forall>a. loadProfileSyncSettings w (profile w) = Some (Inr None) \<and>
           getAncestorProfile w (profile w) = Some a \<longrightarrow>
           restoreProfile h w = Some (Inl TypeError, w))"
    by (simp add: restoreProfile_def)
  have gate: "\<And>syncSettings a.
      initialized w \<Longrightarrow>
      loadProfileSyncSettings w (profile w) = Some (Inr (Some syncSettings)) \<Longrightarrow>
      getAncestorProfile w (profile w) = Some a \<Longrightarrow>
      (shouldRestartApp w (selectedResources syncSettings) = None \<longrightarrow>
         restoreProfile h w = None) \<and>
      (\<forall>e. shouldRestartApp w (selectedResources syncSettings) = Some (Inl e) \<longrightarrow>
         restoreProfile h w = Some (Inl e, w)) \<and>
      (shouldRestartApp w (selectedResources syncSettings) = Some (Inr True) \<and>
       truthy (showInformationMessage h w) = None \<longrightarrow>
         restoreProfile h w = Some (Inr (), w)) \<and>
      (\<forall>restart.
         shouldRestartApp w (selectedResources syncSettings) = Some (Inr restart) \<and>
         \<not> (restart \<and> truthy (showInformationMessage h w) = None) \<longrightarrow>
         restoreProfile h w =
           ioBind (restoreResources h syncSettings a (selectedResources syncSettings) False w)
             (finishRestore h restart))"
  proof -
    fix syncSettings a
    assume i: "initialized w"
      and l: "loadProfileSyncSettings w (profile w) = Some (Inr (Some syncSettings))"
      and g: "getAncestorProfile w (profile w) = Some a"
    have unfold: "restoreProfile h w =
        (case shouldRestartApp w (selectedResources syncSettings) of
           None \<Rightarrow> None
         | Some (Inl e) \<Rightarrow> Some (Inl e, w)
         | Some (Inr restart) \<Rightarrow>
             if restart \<and> truthy (showInformationMessage h w) = None then Some (Inr (), w)
             else ioBind
                    (restoreResources h syncSettings a (selectedResources syncSettings) False w)
                    (finishRestore h restart))"
      using i l g
      by (simp add: restoreProfile_def Let_def)
    show "(shouldRestartApp w (selectedResources syncSettings) = None \<longrightarrow>
         restoreProfile h w = None) \<and>
      (\<forall>e. shouldRestartApp w (selectedResources syncSettings) = Some (Inl e) \<longrightarrow>
         restoreProfile h w = Some (Inl e, w)) \<and>
      (shouldRestartApp w (selectedResources syncSettings) = Some (Inr True) \<and>
       truthy (showInformationMessage h w) = None \<longrightarrow>
         restoreProfile h w = Some (Inr (), w)) \<and>
      (\<forall>restart.
         shouldRestartApp w (selectedResources syncSettings) = Some (Inr restart) \<and>
         \<not> (restart \<and> truthy (showInformationMessage h w) = None) \<longrightarrow>
         restoreProfile h w =
           ioBind (restoreResources h syncSettings a (selectedResources syncSettings) False w)
             (finishRestore h restart))"
      unfolding unfold by auto
  qed
  from early failed null gate show ?thesis by blast
qed

theorem restoreProfile_gate_witness:
  "initialized exampleRestart \<and>
   loadProfileSyncSettings exampleRestart (profile exampleRestart) = Some (Inr (Some baseSync)) \<and>
   getAncestorProfile exampleRestart (profile exampleRestart) = Some ''base'' \<and>
   shouldRestartApp exampleRestart (selectedResources baseSync) = Some (Inr True) \<and>
   truthy (showInformationMessage exampleHost exampleRestart) = None \<and>
   restoreProfile exampleHost exampleRestart = Some (Inr (), exampleRestart) \<and>
   initialized exampleEmptySync \<and>
   loadProfileSyncSettings exampleEmptySync (profile exampleEmptySync) = Some (Inr None) \<and>
   getAncestorProfile exampleEmptySync (profile exampleEmptySync) = Some ''base'' \<and>
   restoreProfile exampleHost exampleEmptySync = Some (Inl TypeError, exampleEmptySync)"
proof -
  have p: "profile exampleRestart = ''work''" and i: "initialized exampleRestart"
    by (simp_all add: exampleRestart_def exampleTree_def emptyWorld_def)
  have x: "extendsOf exampleRestart ''work'' = Some ''base''"
    "extendsOf exampleRestart ''base'' = None"
    by (simp_all add: exampleRestart_def exampleTree_simps)
  have y: "syncYml exampleRestart ''work'' = None" "configYml exampleRestart ''work'' = None"
    "syncYml exampleRestart ''base'' = Some (Some baseSync)"
    by (simp_all add: exampleRestart_def exampleTree_def emptyWorld_def)
  have l: "loadProfileSyncSettings exampleRestart (profile exampleRestart) =
      Some (Inr (Some baseSync))"
    by (simp add: p loadProfileSyncSettings.simps [of _ "''work''"]
          loadProfileSyncSettings.simps [of _ "''base''"] x y)
  have g: "getAncestorProfile exampleRestart (profile exampleRestart) = Some ''base''"
    by (simp add: p getAncestorProfile.simps [of _ "''work''"]
          getAncestorProfile.simps [of _ "''base''"] x)
  have r: "readExtensions exampleRestart ''work'' = None"
    "readExtensions exampleRestart ''base'' = Some (Some (StructuredDoc [mkExt ''a.x''] [] None))"
    by (simp_all add: readExtensions_def exampleRestart_def exampleTree_def emptyWorld_def)
  have e: "listProfileExtensions exampleRestart ''work'' =
      Some (Inr \<lparr>builtin = None, disabled = [mkExt ''a.x''], enabled = [], uninstall = None\<rparr>)"
    by (simp add: listProfileExtensions.simps [of _ "''work''"]
          listProfileExtensions.simps [of _ "''base''"] x r)
  have c: "\<not> canManageExtensions exampleRestart"
    by (simp add: canManageExtensions_def exampleRestart_def exampleTree_def emptyWorld_def)
  have s: "shouldRestartApp exampleRestart (selectedResources baseSync) = Some (Inr True)"
    by (simp add: shouldRestartApp_def selectedResources_def baseSync_def defaultResources_def
          p e c)
  have d: "truthy (showInformationMessage exampleHost exampleRestart) = None"
    by (simp add: truthy_def exampleHost_def)
  have p2: "profile exampleEmptySync = ''work''" and i2: "initialized exampleEmptySync"
    by (simp_all add: exampleEmptySync_def emptyWorld_def)
  have x2: "extendsOf exampleEmptySync ''work'' = Some ''base''"
    "extendsOf exampleEmptySync ''base'' = None"
    by (simp_all add: exampleEmptySync_def extendsOf_def loadProfileSettings_def truthy_def
          emptyWorld_def)
  have y2: "syncYml exampleEmptySync ''work'' = None" "configYml exampleEmptySync ''work'' = None"
    "syncYml exampleEmptySync ''base'' = Some None"
    by (simp_all add: exampleEmptySync_def emptyWorld_def)
  have l2: "loadProfileSyncSettings exampleEmptySync (profile exampleEmptySync) = Some (Inr None)"
    by (simp add: p2 loadProfileSyncSettings.simps [of _ "''work''"]
          loadProfileSyncSettings.simps [of _ "''base''"] x2 y2)
  have g2: "getAncestorProfile exampleEmptySync (profile exampleEmptySync) = Some ''base''"
    by (simp add: p2 getAncestorProfile.simps [of _ "''work''"]
          getAncestorProfile.simps [of _ "''base''"] x2)
  from restoreProfile_gate [of exampleRestart exampleHost] i l g s d
  have r1: "restoreProfile exampleHost exampleRestart = Some (Inr (), exampleRestart)"
    by blast
  from restoreProfile_gate [of exampleEmptySync exampleHost] i2 l2 g2
  have r2: "restoreProfile exampleHost exampleEmptySync = Some (Inl TypeError, exampleEmptySync)"
    by blast
  from i l g s d r1 i2 l2 g2 r2 show ?thesis by simp
qed

end
